theory Spec2Isabelle
  imports Main "HOL-Library.Sublist"
begin

section \<open>Python values\<close>

text \<open>
  A Python \<open>str\<close> is a sequence of Unicode code points, modelled as a list of naturals.
  The Chinese text and the emoji of the scripts are written as their code points;
  plain ASCII literals are written with \<open>ascii\<close>.
\<close>

type_synonym ustr = "nat list"

definition ascii :: "string \<Rightarrow> ustr" where
  "ascii s = map of_char s"

definition is_true :: "ustr \<Rightarrow> bool" where
  \<comment> \<open>truth value of a \<open>str\<close>: the empty string is false\<close>
  "is_true s = (s \<noteq> [])"

definition opt_true :: "'a list option \<Rightarrow> bool" where
  \<comment> \<open>truth value of an \<open>Optional[str]\<close> or an optional list: \<open>None\<close> and the empty
      sequence are false\<close>
  "opt_true v = (case v of None \<Rightarrow> False | Some s \<Rightarrow> s \<noteq> [])"

definition py_or :: "ustr \<Rightarrow> ustr \<Rightarrow> ustr" where
  \<comment> \<open>\<open>a or b\<close> on strings\<close>
  "py_or a b = (if is_true a then a else b)"

fun join :: "ustr \<Rightarrow> ustr list \<Rightarrow> ustr" where
  \<comment> \<open>\<open>sep.join(xs)\<close>\<close>
  "join sep [] = []"
| "join sep [x] = x"
| "join sep (x # y # ys) = x @ sep @ join sep (y # ys)"

function digits :: "nat \<Rightarrow> ustr" where
  "digits n = (if n < 10 then [48 + n] else digits (n div 10) @ [48 + n mod 10])"
  by pat_completeness auto
termination
  by (relation "measure id") auto

definition str_int :: "int \<Rightarrow> ustr" where
  \<comment> \<open>\<open>str(i)\<close>, which is what \<open>{word_count}\<close> formats in an f-string\<close>
  "str_int i = (if i < 0 then 0x2D # digits (nat (- i)) else digits (nat i))"

text \<open>
  Exceptions. What the client library raises is opaque to the scripts; only its
  \<open>str\<close> is ever read (by the \<open>except Exception as e\<close> handlers).
\<close>

datatype sdk_error = SdkError (sdk_str: ustr)

datatype exn =
    ValueError ustr
  | KeyError ustr
  | IndexError
  | AttributeError ustr  \<comment> \<open>the name of the attribute that the object does not have\<close>
  | Sdk sdk_error

definition last_item :: "'a list \<Rightarrow> exn + 'a" where
  \<comment> \<open>\<open>xs[-1]\<close>\<close>
  "last_item xs = (if xs = [] then Inl IndexError else Inr (last xs))"

definition getitem :: "(ustr \<times> 'v) list \<Rightarrow> ustr \<Rightarrow> exn + 'v" where
  \<comment> \<open>\<open>d[k]\<close> on a dict literal\<close>
  "getitem d k = (case map_of d k of None \<Rightarrow> Inl (KeyError k) | Some v \<Rightarrow> Inr v)"

section \<open>The client library as seen by the scripts\<close>

record CreateBlock =
  cb_label :: ustr
  cb_description :: "ustr option"
  cb_value :: ustr

record MessageCreate =
  mc_role :: ustr
  mc_content :: ustr

record Letta =
  letta_token :: "ustr option"
  letta_base_url :: "ustr option"
  letta_timeout :: "int option"

record AgentState =
  agent_id :: ustr
  agent_name :: ustr

text \<open>
  The messages of a response are a union of several kinds (system, user, reasoning,
  tool call, tool return, assistant, ...). Every kind has a \<open>message_type\<close>; only some
  kinds have a \<open>content\<close>. \<open>msg_content\<close> is \<open>None\<close> for a message of a kind without
  that attribute, and reading \<open>.content\<close> of such a message raises \<open>AttributeError\<close>.
\<close>

record message =
  msg_content :: "ustr option"
  msg_message_type :: ustr

definition content_of :: "message \<Rightarrow> exn + ustr" where
  \<comment> \<open>\<open>m.content\<close>\<close>
  "content_of m =
     (case msg_content m of None \<Rightarrow> Inl (AttributeError (ascii ''content'')) | Some c \<Rightarrow> Inr c)"

record response =
  resp_messages :: "message list"

record block =
  block_value :: ustr

record create_args =
  ca_name :: ustr
  ca_memory_blocks :: "CreateBlock list"
  ca_model :: ustr
  ca_embedding :: ustr
  ca_tools :: "ustr list option"

text \<open>
  Every use of the library is recorded, in order. A keyword argument that a call
  does not pass is \<open>None\<close> in its record.
\<close>

datatype call =
    LettaNew Letta
  | AgentsCreate Letta create_args
  | MessagesCreate Letta ustr "MessageCreate list"
  | BlocksModify Letta ustr ustr ustr bool
  | BlocksRetrieve Letta ustr ustr

text \<open>
  The server is outside the program: each remote method answers as an arbitrary
  function of all calls made so far (the current one last), with a result or an error.
\<close>

record sdk =
  on_agents_create :: "call list \<Rightarrow> sdk_error + AgentState"
  on_messages_create :: "call list \<Rightarrow> sdk_error + response"
  on_blocks_modify :: "call list \<Rightarrow> sdk_error + unit"
  on_blocks_retrieve :: "call list \<Rightarrow> sdk_error + block"

record world =
  calls :: "call list"
  stdout :: "ustr list"

definition py_print :: "ustr \<Rightarrow> world \<Rightarrow> world" where
  "py_print s w = w\<lparr>stdout := stdout w @ [s]\<rparr>"

definition Letta_new :: "Letta \<Rightarrow> world \<Rightarrow> Letta \<times> world" where
  "Letta_new args w = (args, w\<lparr>calls := calls w @ [LettaNew args]\<rparr>)"

definition agents_create ::
  "sdk \<Rightarrow> Letta \<Rightarrow> create_args \<Rightarrow> world \<Rightarrow> (sdk_error + AgentState) \<times> world" where
  "agents_create s cl args w =
     (let h = calls w @ [AgentsCreate cl args] in (on_agents_create s h, w\<lparr>calls := h\<rparr>))"

definition agents_messages_create ::
  "sdk \<Rightarrow> Letta \<Rightarrow> ustr \<Rightarrow> MessageCreate list \<Rightarrow> world \<Rightarrow> (sdk_error + response) \<times> world" where
  "agents_messages_create s cl aid msgs w =
     (let h = calls w @ [MessagesCreate cl aid msgs] in (on_messages_create s h, w\<lparr>calls := h\<rparr>))"

definition agents_blocks_modify ::
  "sdk \<Rightarrow> Letta \<Rightarrow> ustr \<Rightarrow> ustr \<Rightarrow> ustr \<Rightarrow> bool \<Rightarrow> world \<Rightarrow> (sdk_error + unit) \<times> world" where
  "agents_blocks_modify s cl aid block_label val read_only w =
     (let h = calls w @ [BlocksModify cl aid block_label val read_only]
      in (on_blocks_modify s h, w\<lparr>calls := h\<rparr>))"

definition agents_blocks_retrieve ::
  "sdk \<Rightarrow> Letta \<Rightarrow> ustr \<Rightarrow> ustr \<Rightarrow> world \<Rightarrow> (sdk_error + block) \<times> world" where
  "agents_blocks_retrieve s cl aid block_label w =
     (let h = calls w @ [BlocksRetrieve cl aid block_label]
      in (on_blocks_retrieve s h, w\<lparr>calls := h\<rparr>))"

definition create_calls :: "call list \<Rightarrow> create_args list" where
  \<comment> \<open>the arguments of the agent-creation calls of a trace\<close>
  "create_calls cs = concat (map (\<lambda>c. case c of AgentsCreate cl args \<Rightarrow> [args] | _ \<Rightarrow> []) cs)"

section \<open>\<open>writer/writing_agent.py\<close>: class \<open>WritingAgent\<close>\<close>

record WritingAgent =
  client :: Letta
  agent :: "AgentState option"
  writing_style :: ustr
  current_project :: "ustr option"

definition default_base_url :: ustr where
  "default_base_url = ascii ''http://localhost:8283''"

definition default_writing_style :: ustr where
  "default_writing_style =
     [0x4E13, 0x4E1A, 0x3001, 0x6E05, 0x6670, 0x3001, 0x6709, 0x903B, 0x8F91, 0x6027]"

definition create_agent_first :: ustr where
  \<comment> \<open>the message of the \<open>ValueError\<close> of the precondition checks\<close>
  "create_agent_first = [0x8BF7, 0x5148, 0x521B, 0x5EFA, 0x5199, 0x4F5C, 0x667A, 0x80FD, 0x4F53]"

text \<open>
  \<open>__init__(self, base_url="http://localhost:8283", token=None)\<close>. The argument
  \<open>base_url\<close> is \<open>None\<close> here when the caller leaves it out.
\<close>

definition WritingAgent_init :: "ustr option \<Rightarrow> ustr option \<Rightarrow> world \<Rightarrow> WritingAgent \<times> world" where
  "WritingAgent_init base_url_arg token w =
     (let base_url = (case base_url_arg of None \<Rightarrow> default_base_url | Some u \<Rightarrow> u);
          (cl, w1) =
            (if opt_true token
             then Letta_new \<lparr>letta_token = token, letta_base_url = None, letta_timeout = None\<rparr> w
             else Letta_new \<lparr>letta_token = None, letta_base_url = Some base_url,
                              letta_timeout = None\<rparr> w)
      in (\<lparr>client = cl, agent = None, writing_style = default_writing_style,
            current_project = None\<rparr>, w1))"

definition persona_value :: "ustr \<Rightarrow> ustr" where
  "persona_value style =
     [0x4F60, 0x662F, 0x4E00, 0x4E2A, 0x4E13, 0x4E1A, 0x7684, 0x5199, 0x4F5C, 0x52A9, 0x624B,
      0xFF0C, 0x5177, 0x6709, 0x4EE5, 0x4E0B, 0x7279, 0x70B9, 0xFF1A, 0x0A, 0x31, 0x2E, 0x20,
      0x5199, 0x4F5C, 0x98CE, 0x683C, 0xFF1A]
     @ style @
     [0x0A, 0x32, 0x2E, 0x20, 0x64C5, 0x957F, 0x5404, 0x79CD, 0x6587, 0x4F53, 0xFF1A, 0x5B66,
      0x672F, 0x8BBA, 0x6587, 0x3001, 0x5546, 0x4E1A, 0x62A5, 0x544A, 0x3001, 0x521B, 0x610F,
      0x5199, 0x4F5C, 0x3001, 0x6280, 0x672F, 0x6587, 0x6863, 0x7B49, 0x0A, 0x33, 0x2E, 0x20,
      0x6CE8, 0x91CD, 0x903B, 0x8F91, 0x6027, 0x3001, 0x6E05, 0x6670, 0x5EA6, 0x548C, 0x53EF,
      0x8BFB, 0x6027, 0x0A, 0x34, 0x2E, 0x20, 0x80FD, 0x591F, 0x6839, 0x636E, 0x8BFB, 0x8005,
      0x7FA4, 0x4F53, 0x8C03, 0x6574, 0x5199, 0x4F5C, 0x98CE, 0x683C, 0x0A, 0x35, 0x2E, 0x20,
      0x5177, 0x5907, 0x7814, 0x7A76, 0x548C, 0x5206, 0x6790, 0x80FD, 0x529B, 0xFF0C, 0x80FD,
      0x591F, 0x63D0, 0x4F9B, 0x6709, 0x6DF1, 0x5EA6, 0x7684, 0x5185, 0x5BB9]"

definition writing_skills_value :: ustr where
  "writing_skills_value =
     [0x6838, 0x5FC3, 0x5199, 0x4F5C, 0x6280, 0x80FD, 0xFF1A, 0x0A, 0x2D, 0x20, 0x7ED3, 0x6784,
      0x5316, 0x5199, 0x4F5C, 0xFF1A, 0x80FD, 0x591F, 0x7EC4, 0x7EC7, 0x6E05, 0x6670, 0x7684,
      0x6587, 0x7AE0, 0x7ED3, 0x6784, 0x0A, 0x2D, 0x20, 0x8BED, 0x8A00, 0x8868, 0x8FBE, 0xFF1A,
      0x4F7F, 0x7528, 0x51C6, 0x786E, 0x3001, 0x751F, 0x52A8, 0x7684, 0x8BED, 0x8A00, 0x0A,
      0x2D, 0x20, 0x903B, 0x8F91, 0x63A8, 0x7406, 0xFF1A, 0x6784, 0x5EFA, 0x6709, 0x529B,
      0x7684, 0x8BBA, 0x8BC1, 0x0A, 0x2D, 0x20, 0x8BFB, 0x8005, 0x5BFC, 0x5411, 0xFF1A, 0x6839,
      0x636E, 0x76EE, 0x6807, 0x8BFB, 0x8005, 0x8C03, 0x6574, 0x5185, 0x5BB9, 0x0A, 0x2D, 0x20,
      0x521B, 0x610F, 0x8868, 0x8FBE, 0xFF1A, 0x5728, 0x4FDD, 0x6301, 0x4E13, 0x4E1A, 0x6027,
      0x7684, 0x540C, 0x65F6, 0x5C55, 0x73B0, 0x521B, 0x610F]"

definition memory_blocks :: "ustr \<Rightarrow> CreateBlock list" where
  "memory_blocks style =
     [\<lparr>cb_label = ascii ''persona'', cb_description = None, cb_value = persona_value style\<rparr>,
      \<lparr>cb_label = ascii ''writing_skills'', cb_description = None,
        cb_value = writing_skills_value\<rparr>,
      \<lparr>cb_label = ascii ''current_project'', cb_description = None,
        cb_value = [0x5199, 0x4F5C, 0x9879, 0x76EE]\<rparr>]"

definition set_style :: "ustr option \<Rightarrow> 'a WritingAgent_scheme \<Rightarrow> 'a WritingAgent_scheme" where
  \<comment> \<open>\<open>if style: self.writing_style = style\<close>\<close>
  "set_style style self =
     (case style of None \<Rightarrow> self
      | Some s \<Rightarrow> if is_true s then self\<lparr>writing_style := s\<rparr> else self)"

definition created_lines :: "ustr \<Rightarrow> AgentState \<Rightarrow> world \<Rightarrow> world" where
  \<comment> \<open>the two lines printed after the agent is created\<close>
  "created_lines name ag w =
     py_print ([0x667A, 0x80FD, 0x4F53, 0x20, 0x49, 0x44, 0x3A, 0x20] @ agent_id ag)
       (py_print ([0x2705, 0x20, 0x5199, 0x4F5C, 0x667A, 0x80FD, 0x4F53, 0x20, 0x27] @ name @
                  [0x27, 0x20, 0x521B, 0x5EFA, 0x6210, 0x529F, 0xFF01]) w)"

definition create_writing_agent ::
  "sdk \<Rightarrow> WritingAgent \<Rightarrow> ustr \<Rightarrow> ustr option \<Rightarrow> world \<Rightarrow> (exn + ustr) \<times> WritingAgent \<times> world" where
  "create_writing_agent s self0 name style w =
     (let self = set_style style self0 in
      case agents_create s (client self)
             \<lparr>ca_name = name, ca_memory_blocks = memory_blocks (writing_style self),
               ca_model = ascii ''openai/gpt-4o-mini'',
               ca_embedding = ascii ''openai/text-embedding-3-small'',
               ca_tools = Some [ascii ''web_search'']\<rparr> w of
        (Inl e, w1) \<Rightarrow> (Inl (Sdk e), self, w1)
      | (Inr ag, w1) \<Rightarrow> (Inr (agent_id ag), self\<lparr>agent := Some ag\<rparr>, created_lines name ag w1))"

text \<open>
  \<open>_update_memory_block\<close>. With no agent, \<open>self.agent.id\<close> raises inside the
  \<open>try\<close>, before the call; the handler prints that error like any other.
\<close>

definition update_failed :: ustr where
  "update_failed = [0x66F4, 0x65B0, 0x8BB0, 0x5FC6, 0x5757, 0x5931, 0x8D25, 0x3A, 0x20]"

definition none_has_no_id :: ustr where
  \<comment> \<open>\<open>str\<close> of the \<open>AttributeError\<close> of \<open>None.id\<close>\<close>
  "none_has_no_id = [0x27, 0x4E, 0x6F, 0x6E, 0x65, 0x54, 0x79, 0x70, 0x65, 0x27, 0x20, 0x6F,
                     0x62, 0x6A, 0x65, 0x63, 0x74, 0x20, 0x68, 0x61, 0x73, 0x20, 0x6E, 0x6F,
                     0x20, 0x61, 0x74, 0x74, 0x72, 0x69, 0x62, 0x75, 0x74, 0x65, 0x20, 0x27,
                     0x69, 0x64, 0x27]"

definition update_memory_block ::
  "sdk \<Rightarrow> 'a WritingAgent_scheme \<Rightarrow> ustr \<Rightarrow> ustr \<Rightarrow> world \<Rightarrow> (exn + unit) \<times> world" where
  "update_memory_block s self block_label new_value w =
     (case agent self of
        None \<Rightarrow> (Inr (), py_print (update_failed @ none_has_no_id) w)
      | Some a \<Rightarrow>
          (case agents_blocks_modify s (client self) (agent_id a) block_label new_value False w of
             (Inl e, w1) \<Rightarrow> (Inr (), py_print (update_failed @ sdk_str e) w1)
           | (Inr u, w1) \<Rightarrow> (Inr (), w1)))"

text \<open>
  \<open>start_writing_project\<close>. The clock is outside the program: \<open>now\<close> is what
  \<open>datetime.now().strftime('%Y-%m-%d %H:%M:%S')\<close> returns.
\<close>

definition project_info :: "ustr \<Rightarrow> ustr \<Rightarrow> ustr \<Rightarrow> ustr \<Rightarrow> ustr \<Rightarrow> ustr" where
  "project_info project_name project_type target_audience requirements now =
     [0x0A, 0x5199, 0x4F5C, 0x9879, 0x76EE, 0x4FE1, 0x606F, 0xFF1A, 0x0A, 0x2D, 0x20, 0x9879,
      0x76EE, 0x540D, 0x79F0, 0xFF1A]
     @ project_name @
     [0x0A, 0x2D, 0x20, 0x9879, 0x76EE, 0x7C7B, 0x578B, 0xFF1A]
     @ project_type @
     [0x0A, 0x2D, 0x20, 0x76EE, 0x6807, 0x8BFB, 0x8005, 0xFF1A]
     @ target_audience @
     [0x0A, 0x2D, 0x20, 0x7279, 0x6B8A, 0x8981, 0x6C42, 0xFF1A]
     @ py_or requirements [0x65E0] @
     [0x0A, 0x2D, 0x20, 0x5F00, 0x59CB, 0x65F6, 0x95F4, 0xFF1A]
     @ now @
     [0x0A]"

definition project_lines :: "ustr \<Rightarrow> ustr \<Rightarrow> ustr \<Rightarrow> world \<Rightarrow> world" where
  \<comment> \<open>the three lines printed when a project starts\<close>
  "project_lines project_name project_type target_audience w =
     py_print ([0x76EE, 0x6807, 0x8BFB, 0x8005, 0xFF1A] @ target_audience)
       (py_print ([0x9879, 0x76EE, 0x7C7B, 0x578B, 0xFF1A] @ project_type)
          (py_print ([0x1F4DD, 0x20, 0x5F00, 0x59CB, 0x5199, 0x4F5C, 0x9879, 0x76EE, 0xFF1A] @ project_name) w))"

definition start_writing_project ::
  "sdk \<Rightarrow> ustr \<Rightarrow> 'a WritingAgent_scheme \<Rightarrow> ustr \<Rightarrow> ustr \<Rightarrow> ustr \<Rightarrow> ustr \<Rightarrow> world
     \<Rightarrow> (exn + unit) \<times> 'a WritingAgent_scheme \<times> world" where
  "start_writing_project s now self project_name project_type target_audience requirements w =
     (case agent self of
        None \<Rightarrow> (Inl (ValueError create_agent_first), self, w)
      | Some a \<Rightarrow>
          (case update_memory_block s self (ascii ''current_project'')
                  (project_info project_name project_type target_audience requirements now) w of
             (Inl e, w1) \<Rightarrow> (Inl e, self, w1)
           | (Inr u, w1) \<Rightarrow>
               (Inr (), self\<lparr>current_project := Some project_name\<rparr>,
                project_lines project_name project_type target_audience w1)))"

text \<open>
  The prompt operations. Each one checks for the agent, formats its prompt, sends it as
  one user message and returns the \<open>content\<close> of the last message of the response,
  after printing a heading and that content. The read of \<open>.content\<close> is not guarded:
  a last message without that attribute raises \<open>AttributeError\<close>. A prompt is the f-string of the source,
  its literal pieces in order with the fields between them: \<open>generate_outline\<close> at
  lines 140-154, \<open>expand_content\<close> at 184-199, \<open>polish_content\<close> at 229-242,
  \<open>adjust_style\<close> at 268-281 and \<open>research_topic\<close> at 313-326 of
  \<open>writing_agent.py\<close>.
\<close>

definition user_message :: "ustr \<Rightarrow> MessageCreate list" where
  \<comment> \<open>\<open>[MessageCreate(role="user", content=prompt)]\<close>\<close>
  "user_message prompt = [\<lparr>mc_role = ascii ''user'', mc_content = prompt\<rparr>]"

definition replies :: "sdk \<Rightarrow> Letta \<Rightarrow> ustr \<Rightarrow> ustr \<Rightarrow> world \<Rightarrow> response \<Rightarrow> bool" where
  \<comment> \<open>sending the prompt to the agent in world \<open>w\<close> returns \<open>resp\<close>, with at least
      one message\<close>
  "replies s cl aid prompt w resp =
     (fst (agents_messages_create s cl aid (user_message prompt) w) = Inr resp
      \<and> resp_messages resp \<noteq> [])"

definition generate_outline_prompt :: "ustr \<Rightarrow> ustr \<Rightarrow> ustr" where
  "generate_outline_prompt topic structure_type =
     [0x0A, 0x8BF7, 0x4E3A, 0x4EE5, 0x4E0B, 0x4E3B, 0x9898, 0x751F, 0x6210, 0x8BE6, 0x7EC6,
      0x7684, 0x5199, 0x4F5C, 0x5927, 0x7EB2, 0xFF1A, 0x0A, 0x0A, 0x4E3B, 0x9898, 0xFF1A]
     @ topic @
     [0x0A, 0x7ED3, 0x6784, 0x7C7B, 0x578B, 0xFF1A]
     @ structure_type @
     [0x0A, 0x0A, 0x8BF7, 0x63D0, 0x4F9B, 0xFF1A, 0x0A, 0x31, 0x2E, 0x20, 0x6587, 0x7AE0,
      0x6807, 0x9898, 0x5EFA, 0x8BAE, 0x0A, 0x32, 0x2E, 0x20, 0x4E3B, 0x8981, 0x7AE0, 0x8282,
      0x7ED3, 0x6784, 0x0A, 0x33, 0x2E, 0x20, 0x6BCF, 0x4E2A, 0x7AE0, 0x8282, 0x7684, 0x5173,
      0x952E, 0x8981, 0x70B9, 0x0A, 0x34, 0x2E, 0x20, 0x903B, 0x8F91, 0x6D41, 0x7A0B, 0x8BF4,
      0x660E, 0x0A, 0x35, 0x2E, 0x20, 0x5EFA, 0x8BAE, 0x7684, 0x5199, 0x4F5C, 0x987A, 0x5E8F,
      0x0A, 0x0A, 0x8BF7, 0x786E, 0x4FDD, 0x5927, 0x7EB2, 0x903B, 0x8F91, 0x6E05, 0x6670,
      0xFF0C, 0x7ED3, 0x6784, 0x5408, 0x7406, 0x3002, 0x0A]"

definition generate_outline ::
  "sdk \<Rightarrow> WritingAgent \<Rightarrow> ustr \<Rightarrow> ustr \<Rightarrow> world \<Rightarrow> (exn + ustr) \<times> world" where
  "generate_outline s self topic structure_type w =
     (case agent self of
        None \<Rightarrow> (Inl (ValueError create_agent_first), w)
      | Some a \<Rightarrow>
          (case agents_messages_create s (client self) (agent_id a)
                  (user_message (generate_outline_prompt topic structure_type)) w of
             (Inl e, w1) \<Rightarrow> (Inl (Sdk e), w1)
           | (Inr response, w1) \<Rightarrow>
               (case last_item (resp_messages response) of
                  Inl e \<Rightarrow> (Inl e, w1)
                | Inr m \<Rightarrow>
                    (case content_of m of
                       Inl e \<Rightarrow> (Inl e, w1)
                     | Inr text \<Rightarrow>
                         (Inr text,
                          py_print text
                            (py_print [0x1F4CB, 0x20, 0x751F, 0x6210, 0x7684, 0x6587, 0x7AE0,
                                       0x5927, 0x7EB2, 0xFF1A] w1))))))"

definition points_text :: "ustr list \<Rightarrow> ustr" where
  \<comment> \<open>the lines \<open>- point\<close>, one for each key point, joined by newlines\<close>
  "points_text key_points = join [0x0A] (map (\<lambda>point. ascii ''- '' @ point) key_points)"

definition expand_content_prompt :: "ustr \<Rightarrow> ustr list \<Rightarrow> int \<Rightarrow> ustr" where
  "expand_content_prompt section key_points word_count =
     [0x0A, 0x8BF7, 0x5C06, 0x4EE5, 0x4E0B, 0x7AE0, 0x8282, 0x5185, 0x5BB9, 0x6269, 0x5C55,
      0x4E3A, 0x5B8C, 0x6574, 0x7684, 0x6BB5, 0x843D, 0xFF1A, 0x0A, 0x0A, 0x7AE0, 0x8282, 0xFF1A]
     @ section @
     [0x0A, 0x5173, 0x952E, 0x8981, 0x70B9, 0xFF1A, 0x0A]
     @ points_text key_points @
     [0x0A, 0x0A, 0x8981, 0x6C42, 0xFF1A, 0x0A, 0x31, 0x2E, 0x20, 0x5B57, 0x6570, 0x63A7,
      0x5236, 0x5728, 0x20]
     @ str_int word_count @
     [0x20, 0x5B57, 0x5DE6, 0x53F3, 0x0A, 0x32, 0x2E, 0x20, 0x4FDD, 0x6301, 0x903B, 0x8F91,
      0x6E05, 0x6670, 0xFF0C, 0x8FC7, 0x6E21, 0x81EA, 0x7136, 0x0A, 0x33, 0x2E, 0x20, 0x4F7F,
      0x7528, 0x5177, 0x4F53, 0x7684, 0x4F8B, 0x5B50, 0x548C, 0x7EC6, 0x8282, 0x0A, 0x34, 0x2E,
      0x20, 0x786E, 0x4FDD, 0x5185, 0x5BB9, 0x6709, 0x6DF1, 0x5EA6, 0x548C, 0x8BF4, 0x670D,
      0x529B, 0x0A, 0x35, 0x2E, 0x20, 0x8BED, 0x8A00, 0x6D41, 0x7545, 0xFF0C, 0x7B26, 0x5408,
      0x76EE, 0x6807, 0x8BFB, 0x8005, 0x9700, 0x6C42, 0x0A, 0x0A, 0x8BF7, 0x76F4, 0x63A5,
      0x8F93, 0x51FA, 0x6269, 0x5C55, 0x540E, 0x7684, 0x5185, 0x5BB9, 0xFF0C, 0x4E0D, 0x9700,
      0x8981, 0x989D, 0x5916, 0x8BF4, 0x660E, 0x3002, 0x0A]"

definition expand_content ::
  "sdk \<Rightarrow> 'a WritingAgent_scheme \<Rightarrow> ustr \<Rightarrow> ustr list \<Rightarrow> int \<Rightarrow> world \<Rightarrow> (exn + ustr) \<times> world" where
  "expand_content s self section key_points word_count w =
     (case agent self of
        None \<Rightarrow> (Inl (ValueError create_agent_first), w)
      | Some a \<Rightarrow>
          (case agents_messages_create s (client self) (agent_id a)
                  (user_message (expand_content_prompt section key_points word_count)) w of
             (Inl e, w1) \<Rightarrow> (Inl (Sdk e), w1)
           | (Inr response, w1) \<Rightarrow>
               (case last_item (resp_messages response) of
                  Inl e \<Rightarrow> (Inl e, w1)
                | Inr m \<Rightarrow>
                    (case content_of m of
                       Inl e \<Rightarrow> (Inl e, w1)
                     | Inr text \<Rightarrow>
                         (Inr text,
                          py_print text
                            (py_print ([0x1F4DD, 0x20, 0x6269, 0x5C55, 0x5185, 0x5BB9, 0xFF08] @ section @
                            [0xFF09, 0xFF1A]) w1))))))"

definition focus_text :: "ustr list option \<Rightarrow> ustr" where
  "focus_text focus_areas =
     (case focus_areas of
        None \<Rightarrow> []
      | Some fs \<Rightarrow>
          if fs \<noteq> []
          then [0x0A] @ [0x91CD, 0x70B9, 0x6DA6, 0x8272, 0x65B9, 0x9762, 0xFF1A] @ join (ascii '', '') fs
          else [])"

definition polish_content_prompt :: "ustr \<Rightarrow> ustr list option \<Rightarrow> ustr" where
  "polish_content_prompt content focus_areas =
     [0x0A, 0x8BF7, 0x5BF9, 0x4EE5, 0x4E0B, 0x5185, 0x5BB9, 0x8FDB, 0x884C, 0x6DA6, 0x8272,
      0x6539, 0x8FDB, 0xFF1A, 0x0A, 0x0A]
     @ content @
     [0x0A, 0x0A, 0x6DA6, 0x8272, 0x8981, 0x6C42, 0xFF1A, 0x0A, 0x31, 0x2E, 0x20, 0x6539,
      0x8FDB, 0x8BED, 0x8A00, 0x8868, 0x8FBE, 0xFF0C, 0x4F7F, 0x5176, 0x66F4, 0x52A0, 0x751F,
      0x52A8, 0x6709, 0x529B, 0x0A, 0x32, 0x2E, 0x20, 0x4F18, 0x5316, 0x53E5, 0x5B50, 0x7ED3,
      0x6784, 0xFF0C, 0x63D0, 0x9AD8, 0x53EF, 0x8BFB, 0x6027, 0x0A, 0x33, 0x2E, 0x20, 0x589E,
      0x5F3A, 0x903B, 0x8F91, 0x6027, 0x548C, 0x8FDE, 0x8D2F, 0x6027, 0x0A, 0x34, 0x2E, 0x20,
      0x786E, 0x4FDD, 0x7528, 0x8BCD, 0x51C6, 0x786E, 0xFF0C, 0x907F, 0x514D, 0x91CD, 0x590D,
      0x0A, 0x35, 0x2E, 0x20, 0x4FDD, 0x6301, 0x539F, 0x6587, 0x7684, 0x6838, 0x5FC3, 0x89C2,
      0x70B9, 0x548C, 0x7ED3, 0x6784]
     @ focus_text focus_areas @
     [0x0A, 0x0A, 0x8BF7, 0x76F4, 0x63A5, 0x8F93, 0x51FA, 0x6DA6, 0x8272, 0x540E, 0x7684,
      0x5185, 0x5BB9, 0xFF0C, 0x5E76, 0x7B80, 0x8981, 0x8BF4, 0x660E, 0x4E3B, 0x8981, 0x6539,
      0x8FDB, 0x70B9, 0x3002, 0x0A]"

definition polish_content ::
  "sdk \<Rightarrow> WritingAgent \<Rightarrow> ustr \<Rightarrow> ustr list option \<Rightarrow> world \<Rightarrow> (exn + ustr) \<times> world" where
  "polish_content s self content focus_areas w =
     (case agent self of
        None \<Rightarrow> (Inl (ValueError create_agent_first), w)
      | Some a \<Rightarrow>
          (case agents_messages_create s (client self) (agent_id a)
                  (user_message (polish_content_prompt content focus_areas)) w of
             (Inl e, w1) \<Rightarrow> (Inl (Sdk e), w1)
           | (Inr response, w1) \<Rightarrow>
               (case last_item (resp_messages response) of
                  Inl e \<Rightarrow> (Inl e, w1)
                | Inr m \<Rightarrow>
                    (case content_of m of
                       Inl e \<Rightarrow> (Inl e, w1)
                     | Inr text \<Rightarrow>
                         (Inr text,
                          py_print text
                            (py_print [0x2728, 0x20, 0x6DA6, 0x8272, 0x540E, 0x7684, 0x5185,
                                       0x5BB9, 0xFF1A] w1))))))"

definition adjust_style_prompt :: "ustr \<Rightarrow> ustr \<Rightarrow> ustr" where
  "adjust_style_prompt content target_style =
     [0x0A, 0x8BF7, 0x5C06, 0x4EE5, 0x4E0B, 0x5185, 0x5BB9, 0x8C03, 0x6574, 0x4E3A, 0x20]
     @ target_style @
     [0x20, 0x7684, 0x5199, 0x4F5C, 0x98CE, 0x683C, 0xFF1A, 0x0A, 0x0A]
     @ content @
     [0x0A, 0x0A, 0x98CE, 0x683C, 0x8C03, 0x6574, 0x8981, 0x6C42, 0xFF1A, 0x0A, 0x31, 0x2E,
      0x20, 0x8BED, 0x8A00, 0x98CE, 0x683C, 0xFF1A]
     @ target_style @
     [0x0A, 0x32, 0x2E, 0x20, 0x4FDD, 0x6301, 0x539F, 0x6587, 0x7684, 0x6838, 0x5FC3, 0x4FE1,
      0x606F, 0x548C, 0x903B, 0x8F91, 0x7ED3, 0x6784, 0x0A, 0x33, 0x2E, 0x20, 0x8C03, 0x6574,
      0x8BED, 0x8C03, 0x548C, 0x8868, 0x8FBE, 0x65B9, 0x5F0F, 0x4EE5, 0x7B26, 0x5408, 0x76EE,
      0x6807, 0x98CE, 0x683C, 0x0A, 0x34, 0x2E, 0x20, 0x786E, 0x4FDD, 0x98CE, 0x683C, 0x8F6C,
      0x6362, 0x81EA, 0x7136, 0xFF0C, 0x4E0D, 0x663E, 0x7A81, 0x5140, 0x0A, 0x35, 0x2E, 0x20,
      0x4FDD, 0x6301, 0x5185, 0x5BB9, 0x7684, 0x4E13, 0x4E1A, 0x6027, 0x548C, 0x51C6, 0x786E,
      0x6027, 0x0A, 0x0A, 0x8BF7, 0x76F4, 0x63A5, 0x8F93, 0x51FA, 0x8C03, 0x6574, 0x540E,
      0x7684, 0x5185, 0x5BB9, 0x3002, 0x0A]"

definition adjust_style ::
  "sdk \<Rightarrow> WritingAgent \<Rightarrow> ustr \<Rightarrow> ustr \<Rightarrow> world \<Rightarrow> (exn + ustr) \<times> world" where
  "adjust_style s self content target_style w =
     (case agent self of
        None \<Rightarrow> (Inl (ValueError create_agent_first), w)
      | Some a \<Rightarrow>
          (case agents_messages_create s (client self) (agent_id a)
                  (user_message (adjust_style_prompt content target_style)) w of
             (Inl e, w1) \<Rightarrow> (Inl (Sdk e), w1)
           | (Inr response, w1) \<Rightarrow>
               (case last_item (resp_messages response) of
                  Inl e \<Rightarrow> (Inl e, w1)
                | Inr m \<Rightarrow>
                    (case content_of m of
                       Inl e \<Rightarrow> (Inl e, w1)
                     | Inr text \<Rightarrow>
                         (Inr text,
                          py_print text
                            (py_print ([0x1F3A8, 0x20, 0x98CE, 0x683C, 0x8C03, 0x6574, 0x540E,
                                        0x7684, 0x5185, 0x5BB9, 0xFF08] @ target_style @
                            [0xFF09, 0xFF1A]) w1))))))"

definition depth_instructions :: "(ustr \<times> ustr) list" where
  "depth_instructions =
     [(ascii ''shallow'', [0x63D0, 0x4F9B, 0x57FA, 0x7840, 0x4FE1, 0x606F, 0x548C, 0x6982, 0x8FF0]),
      (ascii ''medium'', [0x63D0, 0x4F9B, 0x8BE6, 0x7EC6, 0x4FE1, 0x606F, 0x548C, 0x591A,
                          0x4E2A, 0x89D2, 0x5EA6]),
      (ascii ''deep'', [0x63D0, 0x4F9B, 0x6DF1, 0x5165, 0x5206, 0x6790, 0x548C, 0x4E13, 0x4E1A,
                        0x89C1, 0x89E3])]"

definition research_text :: "ustr \<Rightarrow> ustr \<Rightarrow> ustr \<Rightarrow> ustr" where
  \<comment> \<open>the template of the research prompt, with its three fields\<close>
  "research_text d1 topic d2 =
     [0x0A, 0x8BF7, 0x5BF9, 0x4EE5, 0x4E0B, 0x4E3B, 0x9898, 0x8FDB, 0x884C, 0x20]
     @ d1 @
     [0x20, 0x7684, 0x7814, 0x7A76, 0xFF1A, 0x0A, 0x0A, 0x4E3B, 0x9898, 0xFF1A]
     @ topic @
     [0x0A, 0x0A, 0x8BF7, 0x63D0, 0x4F9B, 0xFF1A, 0x0A, 0x31, 0x2E, 0x20, 0x4E3B, 0x9898,
      0x7684, 0x6838, 0x5FC3, 0x6982, 0x5FF5, 0x548C, 0x5B9A, 0x4E49, 0x0A, 0x32, 0x2E, 0x20,
      0x76F8, 0x5173, 0x7684, 0x91CD, 0x8981, 0x4E8B, 0x5B9E, 0x548C, 0x6570, 0x636E, 0x0A,
      0x33, 0x2E, 0x20, 0x4E0D, 0x540C, 0x89C2, 0x70B9, 0x548C, 0x4E89, 0x8BAE, 0x70B9, 0x0A,
      0x34, 0x2E, 0x20, 0x5B9E, 0x9645, 0x5E94, 0x7528, 0x548C, 0x6848, 0x4F8B, 0x0A, 0x35,
      0x2E, 0x20, 0x8FDB, 0x4E00, 0x6B65, 0x7814, 0x7A76, 0x7684, 0x5EFA, 0x8BAE, 0x0A, 0x0A,
      0x7814, 0x7A76, 0x8981, 0x6C42, 0xFF1A]
     @ d2 @
     [0xFF0C, 0x786E, 0x4FDD, 0x4FE1, 0x606F, 0x7684, 0x51C6, 0x786E, 0x6027, 0x548C, 0x76F8,
      0x5173, 0x6027, 0x3002, 0x0A]"

definition research_topic_prompt :: "ustr \<Rightarrow> ustr \<Rightarrow> exn + ustr" where
  \<comment> \<open>the f-string reads \<open>depth_instructions[depth]\<close> twice, left to right\<close>
  "research_topic_prompt topic depth =
     (case getitem depth_instructions depth of
        Inl e \<Rightarrow> Inl e
      | Inr d1 \<Rightarrow>
          (case getitem depth_instructions depth of
             Inl e \<Rightarrow> Inl e
           | Inr d2 \<Rightarrow> Inr (research_text d1 topic d2)))"

definition research_topic ::
  "sdk \<Rightarrow> WritingAgent \<Rightarrow> ustr \<Rightarrow> ustr \<Rightarrow> world \<Rightarrow> (exn + ustr) \<times> world" where
  "research_topic s self topic depth w =
     (case agent self of
        None \<Rightarrow> (Inl (ValueError create_agent_first), w)
      | Some a \<Rightarrow>
          (case research_topic_prompt topic depth of
             Inl e \<Rightarrow> (Inl e, w)
           | Inr prompt \<Rightarrow>
               (case agents_messages_create s (client self) (agent_id a) (user_message prompt) w of
                  (Inl e, w1) \<Rightarrow> (Inl (Sdk e), w1)
                | (Inr response, w1) \<Rightarrow>
                    (case last_item (resp_messages response) of
                       Inl e \<Rightarrow> (Inl e, w1)
                     | Inr m \<Rightarrow>
                         (case content_of m of
                            Inl e \<Rightarrow> (Inl e, w1)
                          | Inr text \<Rightarrow>
                              (Inr text,
                               py_print text
                                 (py_print ([0x1F50D, 0x20, 0x7814, 0x7A76, 0x7ED3, 0x679C,
                                             0xFF08] @ topic @
                                 [0xFF09, 0xFF1A]) w1)))))))"

text \<open>\<open>get_writing_progress\<close> returns a dict, kept as the list of its items.\<close>

definition agent_not_created :: ustr where
  "agent_not_created = [0x667A, 0x80FD, 0x4F53, 0x672A, 0x521B, 0x5EFA]"

definition progress_failed :: ustr where
  "progress_failed = [0x83B7, 0x53D6, 0x8FDB, 0x5EA6, 0x5931, 0x8D25, 0x3A, 0x20]"

definition get_writing_progress ::
  "sdk \<Rightarrow> 'a WritingAgent_scheme \<Rightarrow> world \<Rightarrow> (exn + (ustr \<times> ustr) list) \<times> world" where
  "get_writing_progress s self w =
     (case agent self of
        None \<Rightarrow> (Inr [(ascii ''error'', agent_not_created)], w)
      | Some a \<Rightarrow>
          (case agents_blocks_retrieve s (client self) (agent_id a) (ascii ''current_project'') w of
             (Inl e, w1) \<Rightarrow> (Inr [(ascii ''error'', progress_failed @ sdk_str e)], w1)
           | (Inr project_block, w1) \<Rightarrow>
               (Inr [(ascii ''current_project'', block_value project_block),
                     (ascii ''agent_id'', agent_id a),
                     (ascii ''agent_name'', agent_name a)], w1)))"

section \<open>\<open>writer/writing_agent_local.py\<close>: class \<open>WritingAgent\<close>\<close>

text \<open>
  The second class differs from the first in its constructor, in the agent it creates
  and in the outline prompt. \<open>start_writing_project\<close>, \<open>expand_content\<close>,
  \<open>_update_memory_block\<close> and \<open>get_writing_progress\<close> are the same text in both
  files; it has no \<open>polish_content\<close>, \<open>adjust_style\<close> or \<open>research_topic\<close>.
\<close>

record WritingAgentLocal = WritingAgent +
  model :: ustr
  embedding :: ustr

definition WritingAgentLocal_init ::
  "ustr option \<Rightarrow> ustr option \<Rightarrow> world \<Rightarrow> WritingAgentLocal \<times> world" where
  "WritingAgentLocal_init base_url_arg token w =
     (let base_url = (case base_url_arg of None \<Rightarrow> default_base_url | Some u \<Rightarrow> u);
          (cl, m, e, w1) =
            (if opt_true token
             then (let (c, w') = Letta_new \<lparr>letta_token = token, letta_base_url = None,
                                             letta_timeout = None\<rparr> w
                   in (c, ascii ''openai/gpt-4o-mini'', ascii ''openai/text-embedding-3-small'', w'))
             else (let (c, w') = Letta_new \<lparr>letta_token = None, letta_base_url = Some base_url,
                                             letta_timeout = Some 120\<rparr> w
                   in (c, ascii ''deepseek/deepseek-chat'',
                       ascii ''ollama/nomic-embed-text:latest'', w')))
      in (\<lparr>client = cl, agent = None, writing_style = default_writing_style,
            current_project = None, model = m, embedding = e\<rparr>, w1))"

definition persona_value_local :: "ustr \<Rightarrow> ustr" where
  "persona_value_local style =
     [0x4F60, 0x662F, 0x4E00, 0x4E2A, 0x4E13, 0x4E1A, 0x7684, 0x5199, 0x4F5C, 0x52A9, 0x624B,
      0xFF0C, 0x5177, 0x6709, 0x4EE5, 0x4E0B, 0x7279, 0x70B9, 0xFF1A, 0x0A, 0x31, 0x2E, 0x20,
      0x5199, 0x4F5C, 0x98CE, 0x683C, 0xFF1A]
     @ style @
     [0x0A, 0x32, 0x2E, 0x20, 0x64C5, 0x957F, 0x5404, 0x79CD, 0x6587, 0x4F53, 0xFF1A, 0x65B0,
      0x95FB, 0x65B0, 0x4F5C, 0x3001, 0x5546, 0x4E1A, 0x62A5, 0x544A, 0x3001, 0x521B, 0x610F,
      0x5199, 0x4F5C, 0x3001, 0x6280, 0x672F, 0x6587, 0x6863, 0x7B49, 0x0A, 0x33, 0x2E, 0x20,
      0x6CE8, 0x91CD, 0x903B, 0x8F91, 0x6027, 0x3001, 0x6E05, 0x6670, 0x5EA6, 0x548C, 0x53EF,
      0x8BFB, 0x6027, 0x0A, 0x34, 0x2E, 0x20, 0x80FD, 0x591F, 0x6839, 0x636E, 0x8BFB, 0x8005,
      0x7FA4, 0x4F53, 0x8C03, 0x6574, 0x5199, 0x4F5C, 0x98CE, 0x683C, 0x0A, 0x35, 0x2E, 0x20,
      0x5177, 0x5907, 0x83B7, 0x5F97, 0x6700, 0x65B0, 0x70ED, 0x70B9, 0x80FD, 0x529B]"

definition writing_skills_value_local :: ustr where
  "writing_skills_value_local =
     [0x6838, 0x5FC3, 0x5199, 0x4F5C, 0x6280, 0x80FD, 0xFF1A, 0x0A, 0x2D, 0x20, 0x7ED3, 0x6784,
      0x5316, 0x5199, 0x4F5C, 0xFF1A, 0x80FD, 0x591F, 0x7EC4, 0x7EC7, 0x6E05, 0x6670, 0x7684,
      0x6587, 0x7AE0, 0x7ED3, 0x6784, 0x0A, 0x2D, 0x20, 0x8BED, 0x8A00, 0x8868, 0x8FBE, 0xFF1A,
      0x4F7F, 0x7528, 0x51C6, 0x786E, 0x3001, 0x751F, 0x52A8, 0x7684, 0x8BED, 0x8A00, 0x0A,
      0x2D, 0x20, 0x903B, 0x8F91, 0x63A8, 0x7406, 0xFF1A, 0x6784, 0x5EFA, 0x6709, 0x529B,
      0x7684, 0x8BBA, 0x8BC1, 0x0A, 0x2D, 0x20, 0x8BFB, 0x8005, 0x5BFC, 0x5411, 0xFF1A, 0x6839,
      0x636E, 0x76EE, 0x6807, 0x8BFB, 0x8005, 0x8C03, 0x6574, 0x5185, 0x5BB9, 0x0A, 0x2D, 0x20,
      0x521B, 0x610F, 0x8868, 0x8FBE, 0xFF1A, 0x5728, 0x4FDD, 0x6301, 0x4E13, 0x4E1A, 0x6027,
      0x7684, 0x540C, 0x65F6, 0x5C55, 0x73B0, 0x521B, 0x610F]"

definition memory_blocks_local :: "ustr \<Rightarrow> CreateBlock list" where
  "memory_blocks_local style =
     [\<lparr>cb_label = ascii ''persona'',
        cb_description = Some
          [0x672C, 0x5757, 0x5B58, 0x50A8, 0x6709, 0x5173, 0x5F53, 0x524D, 0x61, 0x67, 0x65,
           0x6E, 0x74, 0x89D2, 0x8272, 0x7684, 0x8BE6, 0x7EC6, 0x4FE1, 0x606F, 0x2C, 0x6307,
           0x5BFC, 0x61, 0x67, 0x65, 0x6E, 0x74, 0x7684, 0x884C, 0x4E3A, 0x548C, 0x54CD, 0x5E94,
           0x65B9, 0x5F0F, 0x3002, 0x52A9, 0x4E8E, 0x548C, 0x7528, 0x6237, 0x5728, 0x4E92,
           0x52A8, 0x4E2D, 0x4FDD, 0x6301, 0x4E00, 0x81F4, 0x6027, 0x2E],
        cb_value = persona_value_local style\<rparr>,
      \<lparr>cb_label = ascii ''writing_skills'',
        cb_description = Some
          [0x672C, 0x5757, 0x5B58, 0x50A8, 0x5199, 0x4F5C, 0x5199, 0x4F5C, 0x6280, 0x5DE7,
           0x76F8, 0x5173, 0x77E5, 0x8BC6, 0x20, 0xFF0C, 0x5E2E, 0x52A9, 0x667A, 0x80FD, 0x4F53,
           0x63D0, 0x5347, 0x5199, 0x4F5C, 0x8D28, 0x91CF, 0x3002],
        cb_value = writing_skills_value_local\<rparr>,
      \<lparr>cb_label = ascii ''current_project'',
        cb_description = Some
          [0x672C, 0x5757, 0x5B58, 0x50A8, 0x5F53, 0x524D, 0x7684, 0x5199, 0x4F5C, 0x9879,
           0x76EE, 0x8BE6, 0x60C5, 0xFF0C, 0x5E2E, 0x52A9, 0x667A, 0x80FD, 0x4F53, 0x8DDF,
           0x8E2A, 0x8FDB, 0x5EA6, 0x548C, 0x8981, 0x6C42, 0x3002],
        cb_value = [0x5199, 0x4F5C, 0x9879, 0x76EE]\<rparr>]"

definition create_writing_agent_local ::
  "sdk \<Rightarrow> WritingAgentLocal \<Rightarrow> ustr \<Rightarrow> ustr option \<Rightarrow> world
     \<Rightarrow> (exn + ustr) \<times> WritingAgentLocal \<times> world" where
  "create_writing_agent_local s self0 name style w =
     (let self = set_style style self0 in
      case agents_create s (client self)
             \<lparr>ca_name = name, ca_memory_blocks = memory_blocks_local (writing_style self),
               ca_model = model self, ca_embedding = embedding self,
               ca_tools = Some [ascii ''web_search'']\<rparr> w of
        (Inl e, w1) \<Rightarrow> (Inl (Sdk e), self, w1)
      | (Inr ag, w1) \<Rightarrow> (Inr (agent_id ag), self\<lparr>agent := Some ag\<rparr>, created_lines name ag w1))"

definition generate_outline_prompt_local :: "ustr \<Rightarrow> ustr \<Rightarrow> ustr" where
  "generate_outline_prompt_local topic structure_type =
     [0x0A, 0x8BF7, 0x4E3A, 0x4EE5, 0x4E0B, 0x4E3B, 0x9898, 0x751F, 0x6210, 0x8BE6, 0x7EC6,
      0x7684, 0x5199, 0x4F5C, 0x5927, 0x7EB2, 0xFF1A, 0x0A, 0x0A, 0x4E3B, 0x9898, 0xFF1A]
     @ topic @
     [0x0A, 0x7ED3, 0x6784, 0x7C7B, 0x578B, 0xFF1A]
     @ structure_type @
     [0x0A, 0x0A, 0x8BF7, 0x63D0, 0x4F9B, 0xFF1A, 0x0A, 0x31, 0x2E, 0x20, 0x6587, 0x7AE0,
      0x6807, 0x9898, 0x5EFA, 0x8BAE, 0x0A, 0x32, 0x2E, 0x20, 0x5927, 0x7EB2, 0x7ED3, 0x6784,
      0x28, 0x7B80, 0x77ED, 0x8BF4, 0x660E, 0x29, 0x0A, 0x33, 0x2E, 0x20, 0x4E0D, 0x8D85,
      0x8FC7, 0x33, 0x30, 0x30, 0x5B57, 0x0A, 0x8BF7, 0x786E, 0x4FDD, 0x5927, 0x7EB2, 0x903B,
      0x8F91, 0x6E05, 0x6670, 0xFF0C, 0x7ED3, 0x6784, 0x5408, 0x7406, 0x3002, 0x0A]"

definition generate_outline_local ::
  "sdk \<Rightarrow> WritingAgentLocal \<Rightarrow> ustr \<Rightarrow> ustr \<Rightarrow> world \<Rightarrow> (exn + ustr) \<times> world" where
  "generate_outline_local s self topic structure_type w =
     (case agent self of
        None \<Rightarrow> (Inl (ValueError create_agent_first), w)
      | Some a \<Rightarrow>
          (case agents_messages_create s (client self) (agent_id a)
                  (user_message (generate_outline_prompt_local topic structure_type)) w of
             (Inl e, w1) \<Rightarrow> (Inl (Sdk e), w1)
           | (Inr response, w1) \<Rightarrow>
               (case last_item (resp_messages response) of
                  Inl e \<Rightarrow> (Inl e, w1)
                | Inr m \<Rightarrow>
                    (case content_of m of
                       Inl e \<Rightarrow> (Inl e, w1)
                     | Inr text \<Rightarrow>
                         (Inr text,
                          py_print text
                            (py_print [0x1F4CB, 0x20, 0x751F, 0x6210, 0x7684, 0x6587, 0x7AE0,
                                       0x5927, 0x7EB2, 0xFF1A] w1))))))"

section \<open>\<open>writing/ultimate_simple.py\<close>\<close>

text \<open>
  The environment is outside the program: \<open>getenv\<close> is what \<open>os.getenv\<close> returns
  for a name, \<open>None\<close> when the variable is unset.
\<close>

definition need_api_key :: ustr where
  "need_api_key = [0x9700, 0x8981, 0x8BBE, 0x7F6E, 0x20, 0x44, 0x45, 0x45, 0x50, 0x53, 0x45,
                   0x45, 0x4B, 0x5F, 0x41, 0x50, 0x49, 0x5F, 0x4B, 0x45, 0x59, 0x20, 0x73AF,
                   0x5883, 0x53D8, 0x91CF]"

definition missing_key_lines :: "world \<Rightarrow> world" where
  \<comment> \<open>the four lines printed before the \<open>ValueError\<close>\<close>
  "missing_key_lines w =
     py_print [0x20, 0x20, 0x20, 0x7136, 0x540E, 0x91CD, 0x65B0, 0x542F, 0x52A8, 0x20, 0x4C,
               0x65, 0x74, 0x74, 0x61, 0x20, 0x670D, 0x52A1, 0x5668]
       (py_print [0x20, 0x20, 0x20, 0x65, 0x78, 0x70, 0x6F, 0x72, 0x74, 0x20, 0x44, 0x45, 0x45,
                  0x50, 0x53, 0x45, 0x45, 0x4B, 0x5F, 0x41, 0x50, 0x49, 0x5F, 0x4B, 0x45, 0x59,
                  0x3D, 0x27, 0x73, 0x6B, 0x2D, 0x79, 0x6F, 0x75, 0x72, 0x2D, 0x61, 0x70, 0x69,
                  0x2D, 0x6B, 0x65, 0x79, 0x2D, 0x68, 0x65, 0x72, 0x65, 0x27]
          (py_print [0x1F4A1, 0x20, 0x8BF7, 0x5148, 0x8BBE, 0x7F6E, 0x73AF, 0x5883, 0x53D8,
                     0x91CF, 0xFF1A]
             (py_print [0x274C, 0x20, 0x672A, 0x627E, 0x5230, 0x20, 0x44, 0x45, 0x45, 0x50,
                        0x53, 0x45, 0x45, 0x4B, 0x5F, 0x41, 0x50, 0x49, 0x5F, 0x4B, 0x45, 0x59,
                        0x20, 0x73AF, 0x5883, 0x53D8, 0x91CF] w)))"

definition create_writer ::
  "sdk \<Rightarrow> (ustr \<Rightarrow> ustr option) \<Rightarrow> world \<Rightarrow> (exn + Letta \<times> AgentState) \<times> world" where
  "create_writer s getenv w =
     (if \<not> opt_true (getenv (ascii ''DEEPSEEK_API_KEY''))
      then (Inl (ValueError need_api_key), missing_key_lines w)
      else
        (let (cl, w1) = Letta_new \<lparr>letta_token = None, letta_base_url = Some default_base_url,
                                     letta_timeout = None\<rparr> w
         in case agents_create s cl
                  \<lparr>ca_name = ascii ''deepseek_writer'',
                    ca_memory_blocks =
                      [\<lparr>cb_label = ascii ''persona'', cb_description = None,
                         cb_value = [0x4F60, 0x662F, 0x4E13, 0x4E1A, 0x5199, 0x4F5C, 0x52A9,
                                     0x624B, 0xFF0C, 0x4F7F, 0x7528, 0x20, 0x44, 0x65, 0x65,
                                     0x70, 0x53, 0x65, 0x65, 0x6B, 0x20, 0x6A21, 0x578B]\<rparr>],
                    ca_model = ascii ''deepseek/deepseek-chat'',
                    ca_embedding = ascii ''ollama/nomic-embed-text:latest'',
                    ca_tools = None\<rparr> w1 of
              (Inl e, w2) \<Rightarrow> (Inl (Sdk e), w2)
            | (Inr ag, w2) \<Rightarrow> (Inr (cl, ag), w2)))"

definition write_article_prompt :: "ustr \<Rightarrow> ustr" where
  "write_article_prompt topic =
     [0x5199, 0x4E00, 0x7BC7, 0x5173, 0x4E8E, 0x20] @ topic @
     [0x20, 0x7684, 0x6587, 0x7AE0]"

definition writing_done :: ustr where
  "writing_done = [0x5199, 0x4F5C, 0x5B8C, 0x6210]"

definition write_article ::
  "sdk \<Rightarrow> Letta \<Rightarrow> AgentState \<Rightarrow> ustr \<Rightarrow> world \<Rightarrow> (exn + ustr) \<times> world" where
  "write_article s cl ag topic w =
     (case agents_messages_create s cl (agent_id ag)
             (user_message (write_article_prompt topic)) w of
        (Inl e, w1) \<Rightarrow> (Inl (Sdk e), w1)
      | (Inr response, w1) \<Rightarrow>
          (case last_item (resp_messages response) of
             Inl e \<Rightarrow> (Inl e, w1)
           | Inr m \<Rightarrow>
               if msg_message_type m = ascii ''assistant_message''
               then (case content_of m of
                       Inl e \<Rightarrow> (Inl e, w1)
                     | Inr text \<Rightarrow> (Inr text, w1))
               else (Inr writing_done, w1)))"

section \<open>Concrete runs\<close>

text \<open>
  A few closed inputs on which the statements below are exercised: an empty world, a
  server that answers every call, a server that refuses every call, and writers with and
  without an agent.
\<close>

definition example_world :: world where
  "example_world = \<lparr>calls = [], stdout = []\<rparr>"

definition example_agent :: AgentState where
  "example_agent = \<lparr>agent_id = ascii ''agent-1'', agent_name = ascii ''writer''\<rparr>"

definition example_response :: response where
  "example_response =
     \<lparr>resp_messages =
        [\<lparr>msg_content = None, msg_message_type = ascii ''reasoning_message''\<rparr>,
         \<lparr>msg_content = Some (ascii ''text''), msg_message_type = ascii ''assistant_message''\<rparr>]\<rparr>"

definition example_sdk :: sdk where
  "example_sdk =
     \<lparr>on_agents_create = (\<lambda>h. Inr example_agent),
       on_messages_create = (\<lambda>h. Inr example_response),
       on_blocks_modify = (\<lambda>h. Inr ()),
       on_blocks_retrieve = (\<lambda>h. Inr \<lparr>block_value = ascii ''report''\<rparr>)\<rparr>"

definition example_tool_response :: response where
  \<comment> \<open>a response that ends with the return of a tool, a message without content\<close>
  "example_tool_response =
     \<lparr>resp_messages =
        [\<lparr>msg_content = None, msg_message_type = ascii ''reasoning_message''\<rparr>,
         \<lparr>msg_content = None, msg_message_type = ascii ''tool_call_message''\<rparr>,
         \<lparr>msg_content = None, msg_message_type = ascii ''tool_return_message''\<rparr>]\<rparr>"

definition example_tool_sdk :: sdk where
  "example_tool_sdk = example_sdk\<lparr>on_messages_create := (\<lambda>h. Inr example_tool_response)\<rparr>"

definition example_down :: sdk_error where
  "example_down = SdkError (ascii ''connection refused'')"

definition example_down_sdk :: sdk where
  "example_down_sdk =
     \<lparr>on_agents_create = (\<lambda>h. Inl example_down),
       on_messages_create = (\<lambda>h. Inl example_down),
       on_blocks_modify = (\<lambda>h. Inl example_down),
       on_blocks_retrieve = (\<lambda>h. Inl example_down)\<rparr>"

definition example_client :: Letta where
  "example_client =
     \<lparr>letta_token = None, letta_base_url = Some default_base_url, letta_timeout = None\<rparr>"

definition example_writer :: WritingAgent where
  \<comment> \<open>a writer whose agent has been created\<close>
  "example_writer =
     \<lparr>client = example_client, agent = Some example_agent,
       writing_style = default_writing_style, current_project = None\<rparr>"

definition example_new_writer :: WritingAgent where
  \<comment> \<open>a writer as the constructor leaves it, with no agent\<close>
  "example_new_writer = fst (WritingAgent_init None None example_world)"

definition example_local_writer :: WritingAgentLocal where
  "example_local_writer =
     (fst (WritingAgentLocal_init None None example_world))\<lparr>agent := Some example_agent\<rparr>"

definition example_new_local_writer :: WritingAgentLocal where
  "example_new_local_writer = fst (WritingAgentLocal_init None None example_world)"

definition example_research_prompt :: ustr where
  "example_research_prompt =
     (case research_topic_prompt (ascii ''AI'') (ascii ''medium'') of Inl e \<Rightarrow> [] | Inr p \<Rightarrow> p)"

definition example_env :: "ustr \<Rightarrow> ustr option" where
  \<comment> \<open>an environment with the API key set\<close>
  "example_env = (\<lambda>n. if n = ascii ''DEEPSEEK_API_KEY'' then Some (ascii ''sk-1'') else None)"

section \<open>Auxiliary facts\<close>

lemma sublist_app_l: "sublist x y \<Longrightarrow> sublist x (a @ y)"
  by (metis append_assoc sublist_def)

lemma sublist_app_r: "sublist x y \<Longrightarrow> sublist x (y @ b)"
  by (metis append_assoc sublist_def)

lemma sublist_join: "p \<in> set xs \<Longrightarrow> sublist p (join sep xs)"
proof (induction sep xs rule: join.induct)
  case (1 sep)
  then show ?case by simp
next
  case (2 sep x)
  then show ?case by simp
next
  case (3 sep x y ys)
  show ?case
  proof (cases "p = x")
    case True
    then show ?thesis by simp
  next
    case False
    with 3 have "sublist p (join sep (y # ys))" by simp
    then show ?thesis by (simp add: sublist_app_l)
  qed
qed

lemma sublist_points_text: "p \<in> set key_points \<Longrightarrow> sublist p (points_text key_points)"
proof -
  assume p: "p \<in> set key_points"
  let ?line = "\<lambda>point. ascii ''- '' @ point"
  from p have "?line p \<in> set (map ?line key_points)" by simp
  then have "sublist (?line p) (points_text key_points)"
    unfolding points_text_def by (rule sublist_join)
  moreover have "sublist p (?line p)" by simp
  ultimately show ?thesis by (rule sublist_order.order_trans[rotated])
qed

section \<open>Prompts contain their arguments\<close>

text \<open>
  C6. The outline prompt (of either class) and the research prompt contain the topic as
  a contiguous substring; the expansion prompt contains the section name and every key
  point. The research prompt exists only for a depth that the table has.
\<close>

theorem prompts_contain_arguments:
  "sublist topic (generate_outline_prompt topic structure_type)
   \<and> sublist topic (generate_outline_prompt_local topic structure_type)
   \<and> (\<forall>p. research_topic_prompt topic depth = Inr p \<longrightarrow> sublist topic p)
   \<and> sublist section (expand_content_prompt section key_points word_count)
   \<and> (\<forall>point \<in> set key_points.
         sublist point (expand_content_prompt section key_points word_count))"
proof (intro conjI allI impI ballI)
  show "sublist topic (generate_outline_prompt topic structure_type)"
    unfolding generate_outline_prompt_def by (rule sublist_appendI)
  show "sublist topic (generate_outline_prompt_local topic structure_type)"
    unfolding generate_outline_prompt_local_def by (rule sublist_appendI)
  show "sublist section (expand_content_prompt section key_points word_count)"
    unfolding expand_content_prompt_def by (rule sublist_appendI)
next
  fix p
  assume "research_topic_prompt topic depth = Inr p"
  then obtain d1 d2 where "p = research_text d1 topic d2"
    unfolding research_topic_prompt_def by (auto split: sum.splits)
  moreover have "sublist topic (research_text d1 topic d2)"
    unfolding research_text_def by (intro sublist_app_l sublist_append_rightI)
  ultimately show "sublist topic p" by simp
next
  fix point
  assume "point \<in> set key_points"
  then have "sublist point (points_text key_points)" by (rule sublist_points_text)
  then show "sublist point (expand_content_prompt section key_points word_count)"
    unfolding expand_content_prompt_def
    by (intro sublist_app_l sublist_app_r)
qed

theorem prompts_contain_arguments_witness:
  "research_topic_prompt (ascii ''AI'') (ascii ''medium'') = Inr example_research_prompt
   \<and> sublist (ascii ''AI'') example_research_prompt
   \<and> ascii ''uses'' \<in> set [ascii ''history'', ascii ''uses'']
   \<and> sublist (ascii ''uses'')
        (expand_content_prompt (ascii ''Intro'') [ascii ''history'', ascii ''uses''] 300)"
proof -
  have p: "research_topic_prompt (ascii ''AI'') (ascii ''medium'') = Inr example_research_prompt"
    by (simp add: example_research_prompt_def research_topic_prompt_def getitem_def
        depth_instructions_def ascii_def)
  have k: "ascii ''uses'' \<in> set [ascii ''history'', ascii ''uses'']"
    by simp
  from p k
    prompts_contain_arguments [of "ascii ''AI''" "ascii ''standard''" "ascii ''medium''"
      "ascii ''Intro''" "[ascii ''history'', ascii ''uses'']" 300]
  show ?thesis by blast
qed

section \<open>The precondition checks\<close>

text \<open>
  C2. With no agent, starting a project and every prompt operation, of either class,
  raise the one \<open>ValueError\<close> with the create-the-agent-first message; the object and
  the world are returned as they were, so no remote call has been made and nothing has
  been printed.
\<close>

theorem no_agent_raises_value_error:
  fixes self :: WritingAgent and selfl :: WritingAgentLocal
  assumes "agent self = None" and "agent selfl = None"
  shows
    "start_writing_project s now self project_name project_type target_audience requirements w
       = (Inl (ValueError create_agent_first), self, w)
     \<and> generate_outline s self topic structure_type w = (Inl (ValueError create_agent_first), w)
     \<and> expand_content s self section key_points word_count w
         = (Inl (ValueError create_agent_first), w)
     \<and> polish_content s self content focus_areas w = (Inl (ValueError create_agent_first), w)
     \<and> adjust_style s self content target_style w = (Inl (ValueError create_agent_first), w)
     \<and> research_topic s self topic depth w = (Inl (ValueError create_agent_first), w)
     \<and> start_writing_project s now selfl project_name project_type target_audience requirements w
         = (Inl (ValueError create_agent_first), selfl, w)
     \<and> generate_outline_local s selfl topic structure_type w
         = (Inl (ValueError create_agent_first), w)
     \<and> expand_content s selfl section key_points word_count w
         = (Inl (ValueError create_agent_first), w)"
  using assms
  by (simp add: start_writing_project_def generate_outline_def expand_content_def
      polish_content_def adjust_style_def research_topic_def generate_outline_local_def)

theorem no_agent_raises_value_error_witness:
  "agent example_new_writer = None \<and> agent example_new_local_writer = None
   \<and> research_topic example_sdk example_new_writer (ascii ''AI'') (ascii ''medium'') example_world
       = (Inl (ValueError create_agent_first), example_world)
   \<and> start_writing_project example_sdk (ascii ''2025-01-01 00:00:00'') example_new_local_writer
        (ascii ''report'') (ascii ''memo'') (ascii ''staff'') [] example_world
       = (Inl (ValueError create_agent_first), example_new_local_writer, example_world)"
proof -
  have a: "agent example_new_writer = None"
    by (simp add: example_new_writer_def WritingAgent_init_def Letta_new_def split: prod.splits)
  have b: "agent example_new_local_writer = None"
    by (simp add: example_new_local_writer_def WritingAgentLocal_init_def Letta_new_def
        split: prod.splits)
  from a b no_agent_raises_value_error [OF a b]
  show ?thesis by blast
qed

section \<open>Memory blocks\<close>

lemma update_memory_block_returns: "fst (update_memory_block s self block_label new_value w) = Inr ()"
  by (simp add: update_memory_block_def split: option.splits prod.splits sum.splits)

lemma update_memory_block_calls:
  "agent self = Some a \<Longrightarrow>
   calls (snd (update_memory_block s self block_label new_value w))
     = calls w @ [BlocksModify (client self) (agent_id a) block_label new_value False]"
  by (auto simp: update_memory_block_def agents_blocks_modify_def py_print_def Let_def
      split: prod.splits sum.splits)

text \<open>
  C5. Updating a block makes exactly one remote call, the modify call, with the new
  string itself as the value: nothing is retrieved first and the value depends on nothing
  but the argument. The update made by \<open>start_writing_project\<close> is such a call, for the
  block \<open>current_project\<close> and the formatted project description.
\<close>

theorem update_overwrites_wholesale:
  assumes "agent self = Some a"
  shows
    "calls (snd (update_memory_block s self block_label new_value w))
       = calls w @ [BlocksModify (client self) (agent_id a) block_label new_value False]
     \<and> calls (snd (snd (start_writing_project s now self project_name project_type
                           target_audience requirements w)))
         = calls w @ [BlocksModify (client self) (agent_id a) (ascii ''current_project'')
                        (project_info project_name project_type target_audience requirements now)
                        False]"
proof
  show "calls (snd (update_memory_block s self block_label new_value w))
          = calls w @ [BlocksModify (client self) (agent_id a) block_label new_value False]"
    using assms by (rule update_memory_block_calls)
next
  let ?info = "project_info project_name project_type target_audience requirements now"
  let ?u = "update_memory_block s self (ascii ''current_project'') ?info w"
  have r: "fst ?u = Inr ()" by (rule update_memory_block_returns)
  have c: "calls (snd ?u)
             = calls w @ [BlocksModify (client self) (agent_id a) (ascii ''current_project'')
                            ?info False]"
    using assms by (rule update_memory_block_calls)
  obtain w1 where u: "?u = (Inr (), w1)"
    using r by (cases ?u) auto
  with c have "calls w1 = calls w @ [BlocksModify (client self) (agent_id a)
                                       (ascii ''current_project'') ?info False]"
    by simp
  then show "calls (snd (snd (start_writing_project s now self project_name project_type
                                 target_audience requirements w)))
               = calls w @ [BlocksModify (client self) (agent_id a) (ascii ''current_project'')
                              ?info False]"
    using assms u by (simp add: start_writing_project_def project_lines_def py_print_def)
qed

theorem update_overwrites_wholesale_witness:
  "agent example_writer = Some example_agent
   \<and> calls (snd (update_memory_block example_sdk example_writer (ascii ''current_project'')
                   (ascii ''new text'') example_world))
       = [BlocksModify example_client (ascii ''agent-1'') (ascii ''current_project'')
            (ascii ''new text'') False]"
proof -
  have a: "agent example_writer = Some example_agent"
    by (simp add: example_writer_def)
  from update_overwrites_wholesale [OF a, of example_sdk "ascii ''current_project''"
      "ascii ''new text''" example_world]
  show ?thesis
    using a by (simp add: example_writer_def example_world_def example_agent_def)
qed

text \<open>
  C8. \<open>get_writing_progress\<close> returns a dict in every state and for every server. With no
  agent the dict is the single item \<open>error\<close>; when the retrieval of the block fails, the
  error is caught and the dict is again a single item \<open>error\<close>, carrying the text of the
  failure.
\<close>

theorem get_writing_progress_never_raises:
  "(\<exists>d. fst (get_writing_progress s self w) = Inr d)
   \<and> (agent self = None \<longrightarrow>
        fst (get_writing_progress s self w) = Inr [(ascii ''error'', agent_not_created)])
   \<and> (\<forall>a e. agent self = Some a
          \<and> fst (agents_blocks_retrieve s (client self) (agent_id a) (ascii ''current_project'') w)
              = Inl e \<longrightarrow>
        fst (get_writing_progress s self w)
          = Inr [(ascii ''error'', progress_failed @ sdk_str e)])"
proof (intro conjI allI impI)
  show "\<exists>d. fst (get_writing_progress s self w) = Inr d"
    by (simp add: get_writing_progress_def split: option.splits prod.splits sum.splits)
next
  assume "agent self = None"
  then show "fst (get_writing_progress s self w) = Inr [(ascii ''error'', agent_not_created)]"
    by (simp add: get_writing_progress_def)
next
  fix a e
  assume h: "agent self = Some a
    \<and> fst (agents_blocks_retrieve s (client self) (agent_id a) (ascii ''current_project'') w)
        = Inl e"
  then obtain w1 where
    "agents_blocks_retrieve s (client self) (agent_id a) (ascii ''current_project'') w = (Inl e, w1)"
    by (cases "agents_blocks_retrieve s (client self) (agent_id a) (ascii ''current_project'') w")
      auto
  with h show "fst (get_writing_progress s self w)
                 = Inr [(ascii ''error'', progress_failed @ sdk_str e)]"
    by (simp add: get_writing_progress_def)
qed

theorem get_writing_progress_never_raises_witness:
  "agent example_new_writer = None
   \<and> fst (get_writing_progress example_sdk example_new_writer example_world)
       = Inr [(ascii ''error'', agent_not_created)]
   \<and> agent example_writer = Some example_agent
   \<and> fst (agents_blocks_retrieve example_down_sdk (client example_writer) (agent_id example_agent)
            (ascii ''current_project'') example_world) = Inl example_down
   \<and> fst (get_writing_progress example_down_sdk example_writer example_world)
       = Inr [(ascii ''error'', progress_failed @ ascii ''connection refused'')]"
proof -
  have n: "agent example_new_writer = None"
    by (simp add: example_new_writer_def WritingAgent_init_def Letta_new_def split: prod.splits)
  have a: "agent example_writer = Some example_agent"
    by (simp add: example_writer_def)
  have f: "fst (agents_blocks_retrieve example_down_sdk (client example_writer)
                  (agent_id example_agent) (ascii ''current_project'') example_world)
             = Inl example_down"
    by (simp add: agents_blocks_retrieve_def example_down_sdk_def Let_def)
  have s: "sdk_str example_down = ascii ''connection refused''"
    by (simp add: example_down_def)
  from n a f s
    get_writing_progress_never_raises [of example_sdk example_new_writer example_world]
    get_writing_progress_never_raises [of example_down_sdk example_writer example_world]
  show ?thesis by metis
qed

text \<open>
  C9. With an agent, \<open>start_writing_project\<close> returns normally and leaves
  \<open>current_project\<close> set to the project name, whatever the server answers to the block
  update, a failure included.
\<close>

theorem start_writing_project_completes:
  assumes "agent self = Some a"
  shows
    "fst (start_writing_project s now self project_name project_type target_audience
            requirements w) = Inr ()
     \<and> current_project (fst (snd (start_writing_project s now self project_name project_type
                                   target_audience requirements w))) = Some project_name"
proof -
  let ?u = "update_memory_block s self (ascii ''current_project'')
              (project_info project_name project_type target_audience requirements now) w"
  have "fst ?u = Inr ()" by (rule update_memory_block_returns)
  then obtain w1 where "?u = (Inr (), w1)"
    by (cases ?u) auto
  with assms show ?thesis
    by (simp add: start_writing_project_def)
qed

theorem start_writing_project_completes_witness:
  "agent example_writer = Some example_agent
   \<and> fst (agents_blocks_modify example_down_sdk (client example_writer) (agent_id example_agent)
            (ascii ''current_project'')
            (project_info (ascii ''report'') (ascii ''memo'') (ascii ''staff'') []
               (ascii ''2025-01-01 00:00:00''))
            False example_world) = Inl example_down
   \<and> fst (start_writing_project example_down_sdk (ascii ''2025-01-01 00:00:00'') example_writer
            (ascii ''report'') (ascii ''memo'') (ascii ''staff'') [] example_world) = Inr ()
   \<and> current_project (fst (snd (start_writing_project example_down_sdk
         (ascii ''2025-01-01 00:00:00'') example_writer (ascii ''report'') (ascii ''memo'')
         (ascii ''staff'') [] example_world))) = Some (ascii ''report'')"
proof -
  have a: "agent example_writer = Some example_agent"
    by (simp add: example_writer_def)
  have f: "fst (agents_blocks_modify example_down_sdk (client example_writer)
                  (agent_id example_agent) (ascii ''current_project'')
                  (project_info (ascii ''report'') (ascii ''memo'') (ascii ''staff'') []
                     (ascii ''2025-01-01 00:00:00''))
                  False example_world) = Inl example_down"
    by (simp add: agents_blocks_modify_def example_down_sdk_def Let_def)
  from a f start_writing_project_completes [OF a, of example_down_sdk
      "ascii ''2025-01-01 00:00:00''" "ascii ''report''" "ascii ''memo''" "ascii ''staff''" "[]"
      example_world]
  show ?thesis by blast
qed

section \<open>What the prompt operations return\<close>

lemma replies_unfold:
  assumes "replies s cl aid prompt w resp"
  shows "\<exists>w1. agents_messages_create s cl aid (user_message prompt) w = (Inr resp, w1)
           \<and> last_item (resp_messages resp) = Inr (last (resp_messages resp))"
proof -
  from assms have "fst (agents_messages_create s cl aid (user_message prompt) w) = Inr resp"
    by (simp add: replies_def)
  then obtain w1 where "agents_messages_create s cl aid (user_message prompt) w = (Inr resp, w1)"
    by (cases "agents_messages_create s cl aid (user_message prompt) w") auto
  moreover from assms have "last_item (resp_messages resp) = Inr (last (resp_messages resp))"
    by (simp add: replies_def last_item_def)
  ultimately show ?thesis by blast
qed

lemma generate_outline_returns:
  "agent self = Some a \<Longrightarrow>
   replies s (client self) (agent_id a) (generate_outline_prompt topic structure_type) w resp \<Longrightarrow>
   fst (generate_outline s self topic structure_type w) = content_of (last (resp_messages resp))"
  by (auto simp: generate_outline_def dest!: replies_unfold split: sum.splits)

lemma generate_outline_local_returns:
  "agent self = Some a \<Longrightarrow>
   replies s (client self) (agent_id a) (generate_outline_prompt_local topic structure_type) w
     resp \<Longrightarrow>
   fst (generate_outline_local s self topic structure_type w)
     = content_of (last (resp_messages resp))"
  by (auto simp: generate_outline_local_def dest!: replies_unfold split: sum.splits)

lemma expand_content_returns:
  "agent self = Some a \<Longrightarrow>
   replies s (client self) (agent_id a) (expand_content_prompt section key_points word_count) w
     resp \<Longrightarrow>
   fst (expand_content s self section key_points word_count w)
     = content_of (last (resp_messages resp))"
  by (auto simp: expand_content_def dest!: replies_unfold split: sum.splits)

lemma polish_content_returns:
  "agent self = Some a \<Longrightarrow>
   replies s (client self) (agent_id a) (polish_content_prompt content focus_areas) w resp \<Longrightarrow>
   fst (polish_content s self content focus_areas w) = content_of (last (resp_messages resp))"
  by (auto simp: polish_content_def dest!: replies_unfold split: sum.splits)

lemma adjust_style_returns:
  "agent self = Some a \<Longrightarrow>
   replies s (client self) (agent_id a) (adjust_style_prompt content target_style) w resp \<Longrightarrow>
   fst (adjust_style s self content target_style w) = content_of (last (resp_messages resp))"
  by (auto simp: adjust_style_def dest!: replies_unfold split: sum.splits)

lemma research_topic_returns:
  "agent self = Some a \<Longrightarrow> research_topic_prompt topic depth = Inr p \<Longrightarrow>
   replies s (client self) (agent_id a) p w resp \<Longrightarrow>
   fst (research_topic s self topic depth w) = content_of (last (resp_messages resp))"
  by (auto simp: research_topic_def dest!: replies_unfold split: sum.splits)

lemma write_article_returns:
  "replies s cl (agent_id ag) (write_article_prompt topic) w resp \<Longrightarrow>
   fst (write_article s cl ag topic w)
     = (if msg_message_type (last (resp_messages resp)) = ascii ''assistant_message''
        then content_of (last (resp_messages resp)) else Inr writing_done)"
  by (auto simp: write_article_def dest!: replies_unfold split: sum.splits)

lemma content_of_Some: "msg_content m = Some c \<Longrightarrow> content_of m = Inr c"
  by (simp add: content_of_def)

text \<open>
  C1, as the code has it. With an agent, when the remote call returns a response with at
  least one message and the last message has a content, each prompt operation of the two
  classes returns exactly that content. \<open>write_article\<close> returns the content of the last
  message when that message is an assistant message, and the fixed text \<open>writing_done\<close>
  when it is a message of any other type, whether it has a content or not.
\<close>

theorem prompt_ops_return_last_content:
  fixes self :: WritingAgent and selfl :: WritingAgentLocal
  assumes "agent self = Some a" and "agent selfl = Some b"
  shows
    "(replies s (client self) (agent_id a) (generate_outline_prompt topic structure_type) w resp
        \<and> msg_content (last (resp_messages resp)) = Some c
        \<longrightarrow> fst (generate_outline s self topic structure_type w) = Inr c)
     \<and> (replies s (client self) (agent_id a)
          (expand_content_prompt section key_points word_count) w resp
        \<and> msg_content (last (resp_messages resp)) = Some c
        \<longrightarrow> fst (expand_content s self section key_points word_count w) = Inr c)
     \<and> (replies s (client self) (agent_id a) (polish_content_prompt content focus_areas) w resp
        \<and> msg_content (last (resp_messages resp)) = Some c
        \<longrightarrow> fst (polish_content s self content focus_areas w) = Inr c)
     \<and> (replies s (client self) (agent_id a) (adjust_style_prompt content target_style) w resp
        \<and> msg_content (last (resp_messages resp)) = Some c
        \<longrightarrow> fst (adjust_style s self content target_style w) = Inr c)
     \<and> (research_topic_prompt topic depth = Inr p
          \<and> replies s (client self) (agent_id a) p w resp
          \<and> msg_content (last (resp_messages resp)) = Some c
        \<longrightarrow> fst (research_topic s self topic depth w) = Inr c)
     \<and> (replies s (client selfl) (agent_id b)
          (generate_outline_prompt_local topic structure_type) w resp
        \<and> msg_content (last (resp_messages resp)) = Some c
        \<longrightarrow> fst (generate_outline_local s selfl topic structure_type w) = Inr c)
     \<and> (replies s (client selfl) (agent_id b)
          (expand_content_prompt section key_points word_count) w resp
        \<and> msg_content (last (resp_messages resp)) = Some c
        \<longrightarrow> fst (expand_content s selfl section key_points word_count w) = Inr c)
     \<and> (replies s cl (agent_id ag) (write_article_prompt topic) w resp
        \<and> msg_message_type (last (resp_messages resp)) = ascii ''assistant_message''
        \<and> msg_content (last (resp_messages resp)) = Some c
        \<longrightarrow> fst (write_article s cl ag topic w) = Inr c)
     \<and> (replies s cl (agent_id ag) (write_article_prompt topic) w resp2
        \<and> msg_message_type (last (resp_messages resp2)) \<noteq> ascii ''assistant_message''
        \<longrightarrow> fst (write_article s cl ag topic w) = Inr writing_done)"
proof (intro conjI impI; elim conjE)
  note ok = content_of_Some
  show "fst (generate_outline s self topic structure_type w) = Inr c"
    if "replies s (client self) (agent_id a) (generate_outline_prompt topic structure_type) w resp"
      and "msg_content (last (resp_messages resp)) = Some c"
    using generate_outline_returns [OF assms(1) that(1)] ok [OF that(2)] by simp
  show "fst (expand_content s self section key_points word_count w) = Inr c"
    if "replies s (client self) (agent_id a)
          (expand_content_prompt section key_points word_count) w resp"
      and "msg_content (last (resp_messages resp)) = Some c"
    using expand_content_returns [OF assms(1) that(1)] ok [OF that(2)] by simp
  show "fst (polish_content s self content focus_areas w) = Inr c"
    if "replies s (client self) (agent_id a) (polish_content_prompt content focus_areas) w resp"
      and "msg_content (last (resp_messages resp)) = Some c"
    using polish_content_returns [OF assms(1) that(1)] ok [OF that(2)] by simp
  show "fst (adjust_style s self content target_style w) = Inr c"
    if "replies s (client self) (agent_id a) (adjust_style_prompt content target_style) w resp"
      and "msg_content (last (resp_messages resp)) = Some c"
    using adjust_style_returns [OF assms(1) that(1)] ok [OF that(2)] by simp
  show "fst (research_topic s self topic depth w) = Inr c"
    if "research_topic_prompt topic depth = Inr p"
      and "replies s (client self) (agent_id a) p w resp"
      and "msg_content (last (resp_messages resp)) = Some c"
    using research_topic_returns [OF assms(1) that(1) that(2)] ok [OF that(3)] by simp
  show "fst (generate_outline_local s selfl topic structure_type w) = Inr c"
    if "replies s (client selfl) (agent_id b)
          (generate_outline_prompt_local topic structure_type) w resp"
      and "msg_content (last (resp_messages resp)) = Some c"
    using generate_outline_local_returns [OF assms(2) that(1)] ok [OF that(2)] by simp
  show "fst (expand_content s selfl section key_points word_count w) = Inr c"
    if "replies s (client selfl) (agent_id b)
          (expand_content_prompt section key_points word_count) w resp"
      and "msg_content (last (resp_messages resp)) = Some c"
    using expand_content_returns [OF assms(2) that(1)] ok [OF that(2)] by simp
  show "fst (write_article s cl ag topic w) = Inr c"
    if "replies s cl (agent_id ag) (write_article_prompt topic) w resp"
      and "msg_message_type (last (resp_messages resp)) = ascii ''assistant_message''"
      and "msg_content (last (resp_messages resp)) = Some c"
    using write_article_returns [OF that(1)] that(2) ok [OF that(3)] by simp
  show "fst (write_article s cl ag topic w) = Inr writing_done"
    if "replies s cl (agent_id ag) (write_article_prompt topic) w resp2"
      and "msg_message_type (last (resp_messages resp2)) \<noteq> ascii ''assistant_message''"
    using write_article_returns [OF that(1)] that(2) by simp
qed

lemma example_replies: "replies example_sdk cl aid prompt w example_response"
  by (simp add: replies_def agents_messages_create_def example_sdk_def example_response_def
      Let_def)

lemma example_tool_replies: "replies example_tool_sdk cl aid prompt w example_tool_response"
  by (simp add: replies_def agents_messages_create_def example_tool_sdk_def example_sdk_def
      example_tool_response_def Let_def)

lemma example_research_prompt:
  "research_topic_prompt (ascii ''AI'') (ascii ''medium'') = Inr example_research_prompt"
  by (simp add: example_research_prompt_def research_topic_prompt_def getitem_def
      depth_instructions_def ascii_def)

theorem prompt_ops_return_last_content_witness:
  "agent example_writer = Some example_agent
   \<and> agent example_local_writer = Some example_agent
   \<and> replies example_sdk (client example_writer) (agent_id example_agent)
        (generate_outline_prompt (ascii ''AI'') (ascii ''standard'')) example_world
        example_response
   \<and> msg_content (last (resp_messages example_response)) = Some (ascii ''text'')
   \<and> msg_message_type (last (resp_messages example_response)) = ascii ''assistant_message''
   \<and> research_topic_prompt (ascii ''AI'') (ascii ''medium'') = Inr example_research_prompt
   \<and> replies example_sdk (client example_writer) (agent_id example_agent)
        example_research_prompt example_world example_response
   \<and> replies example_sdk example_client (agent_id example_agent)
        (write_article_prompt (ascii ''AI'')) example_world example_response
   \<and> fst (generate_outline example_sdk example_writer (ascii ''AI'') (ascii ''standard'')
            example_world) = Inr (ascii ''text'')
   \<and> fst (research_topic example_sdk example_writer (ascii ''AI'') (ascii ''medium'')
            example_world) = Inr (ascii ''text'')
   \<and> fst (generate_outline_local example_sdk example_local_writer (ascii ''AI'')
            (ascii ''standard'') example_world) = Inr (ascii ''text'')
   \<and> fst (write_article example_sdk example_client example_agent (ascii ''AI'') example_world)
       = Inr (ascii ''text'')
   \<and> replies example_tool_sdk example_client (agent_id example_agent)
        (write_article_prompt (ascii ''AI'')) example_world example_tool_response
   \<and> msg_message_type (last (resp_messages example_tool_response))
       \<noteq> ascii ''assistant_message''
   \<and> fst (write_article example_tool_sdk example_client example_agent (ascii ''AI'')
            example_world) = Inr writing_done"
proof -
  have a: "agent example_writer = Some example_agent"
    by (simp add: example_writer_def)
  have b: "agent example_local_writer = Some example_agent"
    by (simp add: example_local_writer_def)
  have l: "msg_content (last (resp_messages example_response)) = Some (ascii ''text'')"
      "msg_message_type (last (resp_messages example_response)) = ascii ''assistant_message''"
    by (simp_all add: example_response_def)
  have t: "msg_message_type (last (resp_messages example_tool_response))
             \<noteq> ascii ''assistant_message''"
    by (simp add: example_tool_response_def ascii_def)
  from prompt_ops_return_last_content [OF a b, of example_sdk "ascii ''AI''" "ascii ''standard''"
      example_world example_response "ascii ''text''" "ascii ''Intro''" "[ascii ''history'']" 300
      "ascii ''text''" None "ascii ''formal''" "ascii ''medium''" example_research_prompt
      example_client example_agent example_response]
    prompt_ops_return_last_content [OF a b, of example_tool_sdk "ascii ''AI''"
      "ascii ''standard''" example_world example_response "ascii ''text''" "ascii ''Intro''"
      "[ascii ''history'']" 300 "ascii ''text''" None "ascii ''formal''" "ascii ''medium''"
      example_research_prompt example_client example_agent example_tool_response]
  show ?thesis
    using a b l t example_replies example_tool_replies example_research_prompt by simp
qed

text \<open>
  C1 as stated fails on a response that ends with the return of a tool, a message that
  is not an assistant message and has no content: \<open>write_article\<close> returns its fixed text,
  which is the content of no message, and \<open>generate_outline\<close> does not return at all.
\<close>

theorem last_message_counterexample:
  "agent example_writer = Some example_agent
   \<and> replies example_tool_sdk example_client (agent_id example_agent)
        (write_article_prompt (ascii ''AI'')) example_world example_tool_response
   \<and> replies example_tool_sdk (client example_writer) (agent_id example_agent)
        (generate_outline_prompt (ascii ''AI'') (ascii ''standard'')) example_world
        example_tool_response
   \<and> msg_message_type (last (resp_messages example_tool_response))
       = ascii ''tool_return_message''
   \<and> msg_content (last (resp_messages example_tool_response)) = None
   \<and> fst (write_article example_tool_sdk example_client example_agent (ascii ''AI'')
            example_world) = Inr writing_done
   \<and> fst (generate_outline example_tool_sdk example_writer (ascii ''AI'') (ascii ''standard'')
            example_world) = Inl (AttributeError (ascii ''content''))"
  by (simp add: replies_def write_article_def generate_outline_def agents_messages_create_def
      example_tool_sdk_def example_tool_response_def example_sdk_def example_writer_def
      last_item_def content_of_def ascii_def Let_def)

section \<open>Construction and agent creation\<close>

text \<open>
  C3, as the code has it. A non-empty token makes the client from the token alone. With
  no token, or with the empty string as token, the client is made from the base URL, which
  is \<open>http://localhost:8283\<close> when the caller gives none; the second class also passes
  a timeout of 120 then.
\<close>

theorem client_from_token_or_base_url:
  "(\<forall>t. token = Some t \<and> t \<noteq> [] \<longrightarrow>
      client (fst (WritingAgent_init base_url token w))
        = \<lparr>letta_token = Some t, letta_base_url = None, letta_timeout = None\<rparr>
      \<and> client (fst (WritingAgentLocal_init base_url token w))
        = \<lparr>letta_token = Some t, letta_base_url = None, letta_timeout = None\<rparr>)
   \<and> (token = None \<or> token = Some [] \<longrightarrow>
      client (fst (WritingAgent_init base_url token w))
        = \<lparr>letta_token = None,
            letta_base_url =
              Some (case base_url of None \<Rightarrow> ascii ''http://localhost:8283'' | Some u \<Rightarrow> u),
            letta_timeout = None\<rparr>
      \<and> client (fst (WritingAgentLocal_init base_url token w))
        = \<lparr>letta_token = None,
            letta_base_url =
              Some (case base_url of None \<Rightarrow> ascii ''http://localhost:8283'' | Some u \<Rightarrow> u),
            letta_timeout = Some 120\<rparr>)"
  by (auto simp: WritingAgent_init_def WritingAgentLocal_init_def Letta_new_def opt_true_def
      default_base_url_def Let_def split: option.splits prod.splits)

theorem client_from_token_or_base_url_witness:
  "client (fst (WritingAgent_init None (Some (ascii ''sk-let-1'')) example_world))
     = \<lparr>letta_token = Some (ascii ''sk-let-1''), letta_base_url = None, letta_timeout = None\<rparr>
   \<and> client (fst (WritingAgentLocal_init None None example_world))
     = \<lparr>letta_token = None, letta_base_url = Some (ascii ''http://localhost:8283''),
         letta_timeout = Some 120\<rparr>"
  using client_from_token_or_base_url [of "Some (ascii ''sk-let-1'')" None example_world]
    client_from_token_or_base_url [of None None example_world]
  by (simp add: ascii_def)

text \<open>
  C3 as stated fails for the empty token: the constructor is given a token, and the
  client is made from the base URL.
\<close>

theorem empty_token_counterexample:
  "client (fst (WritingAgent_init None (Some []) example_world))
     = \<lparr>letta_token = None, letta_base_url = Some (ascii ''http://localhost:8283''),
         letta_timeout = None\<rparr>"
  by (simp add: WritingAgent_init_def Letta_new_def opt_true_def default_base_url_def Let_def)

lemma client_set_style: "client (set_style style self) = client self"
  by (simp add: set_style_def split: option.splits)

text \<open>
  C4, as the code has it. Each of the three creation calls passes a name, memory blocks
  with a label and a value, a model and an embedding. Only the second class gives its
  blocks a description; both classes pass the tool list \<open>web_search\<close>, and
  \<open>create_writer\<close> passes no tool list.
\<close>

theorem agent_creation_arguments:
  fixes self :: WritingAgent and selfl :: WritingAgentLocal
  shows
    "(\<exists>blocks.
        calls (snd (snd (create_writing_agent s self name style w)))
          = calls w @ [AgentsCreate (client self)
                         \<lparr>ca_name = name, ca_memory_blocks = blocks,
                           ca_model = ascii ''openai/gpt-4o-mini'',
                           ca_embedding = ascii ''openai/text-embedding-3-small'',
                           ca_tools = Some [ascii ''web_search'']\<rparr>]
        \<and> map cb_label blocks
            = [ascii ''persona'', ascii ''writing_skills'', ascii ''current_project'']
        \<and> list_all (\<lambda>b. cb_description b = None) blocks)
     \<and> (\<exists>blocks.
        calls (snd (snd (create_writing_agent_local s selfl name style w)))
          = calls w @ [AgentsCreate (client selfl)
                         \<lparr>ca_name = name, ca_memory_blocks = blocks,
                           ca_model = model selfl, ca_embedding = embedding selfl,
                           ca_tools = Some [ascii ''web_search'']\<rparr>]
        \<and> map cb_label blocks
            = [ascii ''persona'', ascii ''writing_skills'', ascii ''current_project'']
        \<and> list_all (\<lambda>b. cb_description b \<noteq> None) blocks)
     \<and> (opt_true (getenv (ascii ''DEEPSEEK_API_KEY'')) \<longrightarrow>
        (\<exists>blocks.
           create_calls (calls (snd (create_writer s getenv w)))
             = create_calls (calls w)
               @ [\<lparr>ca_name = ascii ''deepseek_writer'', ca_memory_blocks = blocks,
                    ca_model = ascii ''deepseek/deepseek-chat'',
                    ca_embedding = ascii ''ollama/nomic-embed-text:latest'',
                    ca_tools = None\<rparr>]
           \<and> map cb_label blocks = [ascii ''persona'']
           \<and> list_all (\<lambda>b. cb_description b = None) blocks))"
proof (intro conjI impI)
  show "\<exists>blocks.
        calls (snd (snd (create_writing_agent s self name style w)))
          = calls w @ [AgentsCreate (client self)
                         \<lparr>ca_name = name, ca_memory_blocks = blocks,
                           ca_model = ascii ''openai/gpt-4o-mini'',
                           ca_embedding = ascii ''openai/text-embedding-3-small'',
                           ca_tools = Some [ascii ''web_search'']\<rparr>]
        \<and> map cb_label blocks
            = [ascii ''persona'', ascii ''writing_skills'', ascii ''current_project'']
        \<and> list_all (\<lambda>b. cb_description b = None) blocks"
    by (rule exI [of _ "memory_blocks (writing_style (set_style style self))"])
      (auto simp: create_writing_agent_def agents_create_def created_lines_def py_print_def
        memory_blocks_def client_set_style Let_def split: prod.splits sum.splits)
next
  show "\<exists>blocks.
        calls (snd (snd (create_writing_agent_local s selfl name style w)))
          = calls w @ [AgentsCreate (client selfl)
                         \<lparr>ca_name = name, ca_memory_blocks = blocks,
                           ca_model = model selfl, ca_embedding = embedding selfl,
                           ca_tools = Some [ascii ''web_search'']\<rparr>]
        \<and> map cb_label blocks
            = [ascii ''persona'', ascii ''writing_skills'', ascii ''current_project'']
        \<and> list_all (\<lambda>b. cb_description b \<noteq> None) blocks"
    by (rule exI [of _ "memory_blocks_local (writing_style (set_style style selfl))"])
      (auto simp: create_writing_agent_local_def agents_create_def created_lines_def
        py_print_def memory_blocks_local_def client_set_style set_style_def Let_def
        split: prod.splits sum.splits option.splits)
next
  assume "opt_true (getenv (ascii ''DEEPSEEK_API_KEY''))"
  then show "\<exists>blocks.
           create_calls (calls (snd (create_writer s getenv w)))
             = create_calls (calls w)
               @ [\<lparr>ca_name = ascii ''deepseek_writer'', ca_memory_blocks = blocks,
                    ca_model = ascii ''deepseek/deepseek-chat'',
                    ca_embedding = ascii ''ollama/nomic-embed-text:latest'',
                    ca_tools = None\<rparr>]
           \<and> map cb_label blocks = [ascii ''persona'']
           \<and> list_all (\<lambda>b. cb_description b = None) blocks"
    by (auto simp: create_writer_def agents_create_def Letta_new_def create_calls_def Let_def
        split: prod.splits sum.splits)
qed

theorem agent_creation_arguments_witness:
  "opt_true (example_env (ascii ''DEEPSEEK_API_KEY''))
   \<and> (\<exists>blocks.
         create_calls (calls (snd (create_writer example_sdk example_env example_world)))
           = create_calls (calls example_world)
             @ [\<lparr>ca_name = ascii ''deepseek_writer'', ca_memory_blocks = blocks,
                  ca_model = ascii ''deepseek/deepseek-chat'',
                  ca_embedding = ascii ''ollama/nomic-embed-text:latest'',
                  ca_tools = None\<rparr>]
         \<and> map cb_label blocks = [ascii ''persona'']
         \<and> list_all (\<lambda>b. cb_description b = None) blocks)"
proof -
  have k: "opt_true (example_env (ascii ''DEEPSEEK_API_KEY''))"
    by (simp add: example_env_def opt_true_def ascii_def)
  from k agent_creation_arguments [of example_sdk example_writer "ascii ''writer''" None
      example_world example_local_writer example_env]
  show ?thesis by blast
qed

text \<open>
  C4 as stated fails for \<open>create_writer\<close>, whose creation call passes no tool list and
  a block with no description.
\<close>

theorem create_writer_counterexample:
  "map ca_tools (create_calls (calls (snd (create_writer example_sdk example_env example_world))))
     = [None]
   \<and> map (\<lambda>args. map cb_description (ca_memory_blocks args))
        (create_calls (calls (snd (create_writer example_sdk example_env example_world))))
     = [[None]]"
  by (simp add: create_writer_def agents_create_def Letta_new_def create_calls_def
      example_env_def example_sdk_def example_world_def opt_true_def ascii_def Let_def)

text \<open>
  C7. \<open>create_writer\<close> raises a \<open>ValueError\<close>, having made no call, exactly when the
  variable is unset or empty. When it is set to a non-empty string, the client is
  constructed and the agent-creation call is made with it.
\<close>

theorem create_writer_gate:
  "(((\<exists>m. fst (create_writer s getenv w) = Inl (ValueError m))
      \<and> calls (snd (create_writer s getenv w)) = calls w)
     \<longleftrightarrow> (getenv (ascii ''DEEPSEEK_API_KEY'') = None
          \<or> getenv (ascii ''DEEPSEEK_API_KEY'') = Some []))
   \<and> (\<forall>k. getenv (ascii ''DEEPSEEK_API_KEY'') = Some k \<and> k \<noteq> [] \<longrightarrow>
        (\<exists>cl args. calls (snd (create_writer s getenv w))
                      = calls w @ [LettaNew cl, AgentsCreate cl args]
           \<and> (\<forall>m. fst (create_writer s getenv w) \<noteq> Inl (ValueError m))))"
  by (auto simp: create_writer_def agents_create_def Letta_new_def opt_true_def Let_def
      missing_key_lines_def py_print_def split: prod.splits sum.splits option.splits)

theorem create_writer_gate_witness:
  "(\<lambda>n. None :: ustr option) (ascii ''DEEPSEEK_API_KEY'') = None
   \<and> (\<exists>m. fst (create_writer example_sdk (\<lambda>n. None) example_world) = Inl (ValueError m))
   \<and> calls (snd (create_writer example_sdk (\<lambda>n. None) example_world)) = calls example_world
   \<and> example_env (ascii ''DEEPSEEK_API_KEY'') = Some (ascii ''sk-1'') \<and> ascii ''sk-1'' \<noteq> []
   \<and> (\<exists>cl args. calls (snd (create_writer example_sdk example_env example_world))
                    = calls example_world @ [LettaNew cl, AgentsCreate cl args])"
proof -
  have k: "example_env (ascii ''DEEPSEEK_API_KEY'') = Some (ascii ''sk-1'')"
      "ascii ''sk-1'' \<noteq> []"
    by (simp_all add: example_env_def ascii_def)
  from k create_writer_gate [of example_sdk "\<lambda>n. None" example_world]
    create_writer_gate [of example_sdk example_env example_world]
  show ?thesis by blast
qed

section \<open>The depth of a research\<close>

lemma depth_keys:
  "map fst depth_instructions = [ascii ''shallow'', ascii ''medium'', ascii ''deep'']"
  by (simp add: depth_instructions_def)

lemma depth_distinct: "distinct (map fst depth_instructions)"
  by (simp add: depth_instructions_def ascii_def)

lemma getitem_depth: "(k, v) \<in> set depth_instructions \<Longrightarrow> getitem depth_instructions k = Inr v"
  using depth_distinct by (simp add: getitem_def)

lemma getitem_other:
  "depth \<notin> {ascii ''shallow'', ascii ''medium'', ascii ''deep''} \<Longrightarrow>
   getitem depth_instructions depth = Inl (KeyError depth)"
proof -
  assume "depth \<notin> {ascii ''shallow'', ascii ''medium'', ascii ''deep''}"
  then have "depth \<notin> fst ` set depth_instructions"
    using depth_keys by (metis list.set_map list.simps(15) empty_set)
  then have "map_of depth_instructions depth = None"
    by (simp add: map_of_eq_None_iff)
  then show ?thesis by (simp add: getitem_def)
qed

text \<open>
  C10, as the code has it. With an agent: for each of the three depths of the table the
  lookup succeeds, and the prompt that is sent contains the instruction text of that depth;
  for any other depth the call raises \<open>KeyError\<close> and leaves the world as it was, so
  no remote call has been made.
\<close>

theorem research_topic_depth_lookup:
  assumes "agent self = Some a"
  shows
    "map fst depth_instructions = [ascii ''shallow'', ascii ''medium'', ascii ''deep'']
     \<and> (\<forall>(k, v) \<in> set depth_instructions.
          \<exists>p. research_topic_prompt topic k = Inr p \<and> sublist v p
            \<and> calls (snd (research_topic s self topic k w))
                = calls w @ [MessagesCreate (client self) (agent_id a) (user_message p)])
     \<and> (depth \<notin> {ascii ''shallow'', ascii ''medium'', ascii ''deep''} \<longrightarrow>
          research_topic s self topic depth w = (Inl (KeyError depth), w))"
proof (intro conjI ballI impI)
  show "map fst depth_instructions = [ascii ''shallow'', ascii ''medium'', ascii ''deep'']"
    by (rule depth_keys)
next
  fix kv
  assume m: "kv \<in> set depth_instructions"
  obtain k v where kv: "kv = (k, v)" by (cases kv)
  with m have g: "getitem depth_instructions k = Inr v" by (simp add: getitem_depth)
  then have p: "research_topic_prompt topic k = Inr (research_text v topic v)"
    by (simp add: research_topic_prompt_def)
  have "sublist v (research_text v topic v)"
    unfolding research_text_def by (intro sublist_app_l sublist_append_rightI)
  moreover have "calls (snd (research_topic s self topic k w))
      = calls w @ [MessagesCreate (client self) (agent_id a)
                     (user_message (research_text v topic v))]"
    using assms p
    by (auto simp: research_topic_def agents_messages_create_def py_print_def Let_def
        split: prod.splits sum.splits)
  ultimately show "case kv of (k, v) \<Rightarrow>
      \<exists>p. research_topic_prompt topic k = Inr p \<and> sublist v p
        \<and> calls (snd (research_topic s self topic k w))
            = calls w @ [MessagesCreate (client self) (agent_id a) (user_message p)]"
    using p kv by simp
next
  assume "depth \<notin> {ascii ''shallow'', ascii ''medium'', ascii ''deep''}"
  then have "getitem depth_instructions depth = Inl (KeyError depth)"
    by (rule getitem_other)
  with assms show "research_topic s self topic depth w = (Inl (KeyError depth), w)"
    by (simp add: research_topic_def research_topic_prompt_def)
qed

theorem research_topic_depth_lookup_witness:
  "agent example_writer = Some example_agent
   \<and> ascii ''extreme'' \<notin> {ascii ''shallow'', ascii ''medium'', ascii ''deep''}
   \<and> research_topic example_down_sdk example_writer (ascii ''AI'') (ascii ''extreme'')
        example_world = (Inl (KeyError (ascii ''extreme'')), example_world)
   \<and> (ascii ''deep'', snd (depth_instructions ! 2)) \<in> set depth_instructions
   \<and> (\<exists>p. research_topic_prompt (ascii ''AI'') (ascii ''deep'') = Inr p
          \<and> sublist (snd (depth_instructions ! 2)) p)"
proof -
  have a: "agent example_writer = Some example_agent"
    by (simp add: example_writer_def)
  have n: "ascii ''extreme'' \<notin> {ascii ''shallow'', ascii ''medium'', ascii ''deep''}"
    by (simp add: ascii_def)
  have d: "(ascii ''deep'', snd (depth_instructions ! 2)) \<in> set depth_instructions"
    by (simp add: depth_instructions_def)
  from research_topic_depth_lookup [OF a, of "ascii ''AI''" example_down_sdk example_world
      "ascii ''extreme''"]
  show ?thesis
    using a n d by blast
qed

text \<open>
  C10 as stated fails with no agent: the precondition check comes first, so a depth
  that the table does not have raises \<open>ValueError\<close>, not \<open>KeyError\<close>.
\<close>

theorem research_no_agent_counterexample:
  "agent example_new_writer = None
   \<and> ascii ''extreme'' \<notin> {ascii ''shallow'', ascii ''medium'', ascii ''deep''}
   \<and> research_topic example_sdk example_new_writer (ascii ''AI'') (ascii ''extreme'')
        example_world = (Inl (ValueError create_agent_first), example_world)
   \<and> fst (research_topic example_sdk example_new_writer (ascii ''AI'') (ascii ''extreme'')
            example_world) \<noteq> Inl (KeyError (ascii ''extreme''))"
  by (simp add: research_topic_def example_new_writer_def WritingAgent_init_def Letta_new_def
      ascii_def Let_def split: prod.splits)


end
